theory Spec2Isabelle
  imports Main "HOL-Library.AList"
begin

section \<open>The configuration service of imagesync-pro (src/configservice.js)\<close>

text \<open>
  The class \<^verbatim>\<open>ConfigService\<close> keeps one in-memory document, reads and writes it
  through dotted/bracket path expressions, loads and saves it in four file formats and
  reloads it from a debounced file watch. The theory embeds the class method by method.

  Scope of the embedding of JavaScript values. A document is a tree of the values that
  \<^verbatim>\<open>JSON.parse\<close> and the other decoders produce, and so is every value that is stored
  into it. Reading a property of such a value follows JavaScript: an own data property
  first (an entry of a mapping, an element or a further named property of a sequence, a
  character or the \<^verbatim>\<open>length\<close> of a string, the \<^verbatim>\<open>length\<close> of a sequence), and
  otherwise the member that the value inherits from its built-in prototype, if there is
  one. An inherited member is a function or, under the name \<^verbatim>\<open>__proto__\<close>, the
  prototype object itself; these are objects of the runtime and not values of a document.
  The embedding names them but does not look inside them: reading or writing a property
  \<^emph>\<open>of\<close> a built-in object, and giving a document object another prototype, have the
  outcome \<open>OutsideModel\<close>, which stands for whatever the runtime does there. Which names
  the prototypes define, and two conversions of the runtime that depend on floating-point
  arithmetic, are parameters (the record \<open>engine\<close>). The prototypes are taken to be as
  the language defines them: members other than \<^verbatim>\<open>__proto__\<close> are writable functions.

  Left out, and no theorem speaks about them: numbers that are not integers; the
  distinction between a hole of a sparse sequence and an element that is \<^verbatim>\<open>undefined\<close>
  (both read as \<^verbatim>\<open>undefined\<close>); and the order in which JavaScript enumerates the keys
  of a mapping, which puts integer-like keys first (the entries are kept in the order of
  their insertion). The body of a class is strict-mode code, so storing a property on a
  primitive value raises a TypeError.
\<close>

subsection \<open>Values, errors, segments\<close>

datatype jsval =
    JUndefined
  | JNull
  | JBool bool
  | JNum int
  | JStr string
  | JObj "(string \<times> jsval) list"
  | JArr "jsval list" "(string \<times> jsval) list"

text \<open>
  \<open>JObj ps\<close> lists the entries of a mapping in insertion order. \<open>JArr xs ps\<close> is a
  sequence with elements \<open>xs\<close> and the named (non-index) properties \<open>ps\<close> that JavaScript
  lets any array carry.

  The result of reading a property is a value of this kind or a built-in object: the
  member \<open>Method kd name\<close> that values of kind \<open>kd\<close> inherit under \<open>name\<close>, or the
  prototype object \<open>Prototype kd\<close> of that kind.
\<close>

datatype kind = KObject | KArray | KString | KNumber | KBoolean

datatype builtin = Method kind string | Prototype kind

datatype jsres = Val jsval | Builtin builtin

text \<open>
  The errors of the service. The source throws plain \<^verbatim>\<open>Error\<close> objects that differ in
  their message; the constructors are named after the specification's taxonomy:
  \<open>FileNotFound\<close> is \<^verbatim>\<open>'Config file does not exist'\<close>, \<open>UnsupportedFormat ext\<close> is
  \<^verbatim>\<open>'Unsupported config file extension: ' + ext\<close>, \<open>NoSavePath\<close> is
  \<^verbatim>\<open>'No config file path specified'\<close>, \<open>UnsupportedStructure\<close> is
  \<^verbatim>\<open>'Unsupported structure for csv export'\<close>. \<open>TypeError\<close> and \<open>RangeError\<close> are raised
  by the language itself, \<open>LibraryError\<close> by a decoder, by the file system or by a
  callback. \<open>OutsideModel\<close> is not an error of the code: it marks the operations on
  built-in objects that the embedding does not determine.
\<close>

datatype js_error =
    TypeError
  | RangeError
  | OutsideModel
  | FileNotFound
  | UnsupportedFormat string
  | NoSavePath
  | UnsupportedStructure
  | LibraryError string

text \<open>
  The parameters of the runtime:
  \<^item> \<open>inherited kd name\<close> tells whether values of kind \<open>kd\<close> inherit a member called
    \<open>name\<close> (other than \<^verbatim>\<open>__proto__\<close>, which every kind inherits);
  \<^item> \<open>number_key ds\<close> is \<^verbatim>\<open>String(Number(ds))\<close> for a decimal numeral \<open>ds\<close> from \<open>2^53\<close>,
    where \<^verbatim>\<open>Number\<close> rounds to a floating-point number;
  \<^item> \<open>length_coercion v\<close> is what the assignment of \<open>v\<close> to the \<^verbatim>\<open>length\<close> of a
    sequence makes of \<open>v\<close> where the conversion to a number goes through the text of
    \<open>v\<close> (a string, or a mapping or sequence that is not empty): the new length, or the
    error that is raised.
\<close>

record engine =
  inherited :: "kind \<Rightarrow> string \<Rightarrow> bool"
  number_key :: "string \<Rightarrow> string"
  length_coercion :: "jsval \<Rightarrow> js_error + nat"

text \<open>
  A segment of a parsed path is a string or a number. \<open>Index n\<close> is the number \<open>n\<close>;
  \<open>BigIndex ds\<close> is the number that \<^verbatim>\<open>Number\<close> makes of a numeral \<open>ds\<close> from \<open>2^53\<close>,
  which need not be the value of the numeral.
\<close>

datatype segment = Key string | Index nat | BigIndex string

fun is_index :: "segment \<Rightarrow> bool" where
  "is_index (Index n) = True"
| "is_index (BigIndex ds) = True"
| "is_index (Key s) = False"

subsection \<open>Decimal numerals\<close>

definition is_digit :: "char \<Rightarrow> bool" where
  "is_digit c = (c \<in> set ''0123456789'')"

definition digit_val :: "char \<Rightarrow> nat" where
  "digit_val c = of_char c - 48"

definition nat_of_digits :: "string \<Rightarrow> nat" where
  "nat_of_digits ds = foldl (\<lambda>acc c. 10 * acc + digit_val c) 0 ds"

definition digit_char :: "nat \<Rightarrow> char" where
  "digit_char d = ''0123456789'' ! d"

fun string_of_nat :: "nat \<Rightarrow> string" where
  "string_of_nat n =
     (if n < 10 then [digit_char n] else string_of_nat (n div 10) @ [digit_char (n mod 10)])"

declare string_of_nat.simps [simp del]

text \<open>
  A property name is a canonical numeric index when it is the decimal numeral of a
  natural number: digits only, no leading zero.
\<close>

definition canonical_nat :: "string \<Rightarrow> nat option" where
  "canonical_nat s =
     (if s \<noteq> [] \<and> list_all is_digit s \<and> (s = ''0'' \<or> hd s \<noteq> CHR ''0'')
      then Some (nat_of_digits s) else None)"

text \<open>An array index is a canonical numeric index below \<open>2^32 - 1\<close>.\<close>

definition array_index :: "string \<Rightarrow> nat option" where
  "array_index s =
     (case canonical_nat s of
        Some n \<Rightarrow> if n < 4294967295 then Some n else None
      | None \<Rightarrow> None)"

text \<open>
  \<^verbatim>\<open>Number\<close> is exact on the numerals below \<open>2^53\<close>. From there on the runtime rounds,
  and the segment keeps the numeral for the runtime to convert.
\<close>

definition exact_limit :: nat where
  "exact_limit = 9007199254740992"

definition number_segment :: "string \<Rightarrow> segment" where
  "number_segment ds =
     (if nat_of_digits ds < exact_limit then Index (nat_of_digits ds) else BigIndex ds)"

subsection \<open>\<^verbatim>\<open>_parsePath\<close>\<close>

text \<open>
  \<^verbatim>\<open>
  static _parsePath(key) {
      if (!key) return [];
      const re = /([^[.\]]+)|\[(\d+)\]/g;
      const matches = [];
      let m;
      while ((m = re.exec(key))) {
          if (m[1] !== undefined) matches.push(m[1]);
          else if (m[2] !== undefined) matches.push(Number(m[2]));
      }
      return matches;
  }
  \<close>
  The global regular expression is matched from left to right. At each position the
  first alternative takes the longest run of characters other than \<^verbatim>\<open>[\<close>, \<^verbatim>\<open>.\<close> and
  \<^verbatim>\<open>]\<close>; the second takes \<^verbatim>\<open>[\<close>, one or more digits and \<^verbatim>\<open>]\<close>; where neither
  matches, the search moves on by one character. \<open>scan\<close> is that loop on the list of
  characters.
\<close>

definition is_delim :: "char \<Rightarrow> bool" where
  "is_delim c = (c = CHR ''['' \<or> c = CHR ''.'' \<or> c = CHR '']'')"

function scan :: "string \<Rightarrow> segment list" where
  "scan [] = []"
| "scan (c # cs) =
     (if \<not> is_delim c then
        Key (takeWhile (\<lambda>x. \<not> is_delim x) (c # cs)) # scan (dropWhile (\<lambda>x. \<not> is_delim x) cs)
      else if c = CHR ''['' \<and> takeWhile is_digit cs \<noteq> []
                \<and> dropWhile is_digit cs \<noteq> [] \<and> hd (dropWhile is_digit cs) = CHR '']''
      then number_segment (takeWhile is_digit cs) # scan (tl (dropWhile is_digit cs))
      else scan cs)"
  by pat_completeness auto
termination
proof (relation "measure length")
  fix c :: char and cs :: string
  have a: "length (dropWhile (\<lambda>x. \<not> is_delim x) cs) \<le> length cs"
    by (rule length_dropWhile_le)
  then show "(dropWhile (\<lambda>x. \<not> is_delim x) cs, c # cs) \<in> measure length"
    by simp
  have b: "length (dropWhile is_digit cs) \<le> length cs"
    by (rule length_dropWhile_le)
  then show "(tl (dropWhile is_digit cs), c # cs) \<in> measure length"
    by simp
qed simp_all

text \<open>The argument is \<open>None\<close> when the caller passes no key (\<^verbatim>\<open>undefined\<close> or \<^verbatim>\<open>null\<close>).\<close>

definition falsy_key :: "string option \<Rightarrow> bool" where
  "falsy_key key = (case key of None \<Rightarrow> True | Some s \<Rightarrow> s = [])"

definition parsePath :: "string option \<Rightarrow> segment list" where
  "parsePath key = (case key of None \<Rightarrow> [] | Some s \<Rightarrow> if s = [] then [] else scan s)"

subsection \<open>Reading and writing one property\<close>

definition truthy :: "jsval \<Rightarrow> bool" where
  "truthy v =
     (case v of
        JUndefined \<Rightarrow> False
      | JNull \<Rightarrow> False
      | JBool b \<Rightarrow> b
      | JNum n \<Rightarrow> n \<noteq> 0
      | JStr s \<Rightarrow> s \<noteq> []
      | JObj ps \<Rightarrow> True
      | JArr xs ps \<Rightarrow> True)"

text \<open>\<^verbatim>\<open>typeof v === 'object'\<close> holds of \<^verbatim>\<open>null\<close>, of mappings and of sequences.\<close>

definition typeof_object :: "jsval \<Rightarrow> bool" where
  "typeof_object v =
     (case v of JNull \<Rightarrow> True | JObj ps \<Rightarrow> True | JArr xs ps \<Rightarrow> True | _ \<Rightarrow> False)"

definition isArray :: "jsval \<Rightarrow> bool" where
  "isArray v = (case v of JArr xs ps \<Rightarrow> True | _ \<Rightarrow> False)"

definition is_container :: "jsval \<Rightarrow> bool" where
  "is_container v = (case v of JObj ps \<Rightarrow> True | JArr xs ps \<Rightarrow> True | _ \<Rightarrow> False)"

definition is_scalar :: "jsval \<Rightarrow> bool" where
  "is_scalar v =
     (case v of JNull \<Rightarrow> True | JBool b \<Rightarrow> True | JNum n \<Rightarrow> True | JStr s \<Rightarrow> True
      | _ \<Rightarrow> False)"

text \<open>
  The same three tests on the result of a read. A built-in object is truthy; a built-in
  function has the type \<^verbatim>\<open>'function'\<close>, a prototype object the type \<^verbatim>\<open>'object'\<close>, and
  \<^verbatim>\<open>Array.prototype\<close> is itself an array.
\<close>

fun res_truthy :: "jsres \<Rightarrow> bool" where
  "res_truthy (Val v) = truthy v"
| "res_truthy (Builtin b) = True"

fun res_object :: "jsres \<Rightarrow> bool" where
  "res_object (Val v) = typeof_object v"
| "res_object (Builtin (Prototype kd)) = True"
| "res_object (Builtin (Method kd name)) = False"

fun res_array :: "jsres \<Rightarrow> bool" where
  "res_array (Val v) = isArray v"
| "res_array (Builtin (Prototype kd)) = (kd = KArray)"
| "res_array (Builtin (Method kd name)) = False"

text \<open>
  The property name that a segment denotes. A number below \<open>2^53\<close> is written as its
  decimal numeral. The text of a larger number comes from the runtime; it starts with a
  digit or is \<^verbatim>\<open>Infinity\<close>.
\<close>

definition big_key :: "engine \<Rightarrow> string \<Rightarrow> string" where
  "big_key eng ds =
     (if number_key eng ds \<noteq> [] \<and> is_digit (hd (number_key eng ds)) then number_key eng ds
      else ''Infinity'')"

fun prop_name :: "engine \<Rightarrow> segment \<Rightarrow> string" where
  "prop_name eng (Key s) = s"
| "prop_name eng (Index n) =
     (if n < exact_limit then string_of_nat n else big_key eng (string_of_nat n))"
| "prop_name eng (BigIndex ds) = big_key eng ds"

text \<open>What a value of kind \<open>kd\<close> finds under \<open>name\<close> on its prototype chain.\<close>

definition inherited_member :: "engine \<Rightarrow> kind \<Rightarrow> string \<Rightarrow> jsres" where
  "inherited_member eng kd name =
     (if name = ''__proto__'' then Builtin (Prototype kd)
      else if inherited eng kd name then Builtin (Method kd name)
      else Val JUndefined)"

definition lookup_prop :: "engine \<Rightarrow> kind \<Rightarrow> (string \<times> jsval) list \<Rightarrow> string \<Rightarrow> jsres" where
  "lookup_prop eng kd ps name =
     (case map_of ps name of Some v \<Rightarrow> Val v | None \<Rightarrow> inherited_member eng kd name)"

text \<open>\<open>own eng v k\<close> is \<^verbatim>\<open>v[k]\<close> for a value \<open>v\<close> other than \<^verbatim>\<open>null\<close> and \<^verbatim>\<open>undefined\<close>.\<close>

fun own :: "engine \<Rightarrow> jsval \<Rightarrow> segment \<Rightarrow> jsres" where
  "own eng (JObj ps) k = lookup_prop eng KObject ps (prop_name eng k)"
| "own eng (JArr xs ps) k =
     (case array_index (prop_name eng k) of
        Some n \<Rightarrow> if n < length xs then Val (xs ! n)
                  else inherited_member eng KArray (prop_name eng k)
      | None \<Rightarrow> if prop_name eng k = ''length'' then Val (JNum (int (length xs)))
                else lookup_prop eng KArray ps (prop_name eng k))"
| "own eng (JStr s) k =
     (case canonical_nat (prop_name eng k) of
        Some n \<Rightarrow> if n < length s then Val (JStr [s ! n])
                  else inherited_member eng KString (prop_name eng k)
      | None \<Rightarrow> if prop_name eng k = ''length'' then Val (JNum (int (length s)))
                else inherited_member eng KString (prop_name eng k))"
| "own eng (JNum n) k = inherited_member eng KNumber (prop_name eng k)"
| "own eng (JBool b) k = inherited_member eng KBoolean (prop_name eng k)"
| "own eng v k = Val JUndefined"

text \<open>\<^verbatim>\<open>v[k]\<close>: reading a property of \<^verbatim>\<open>null\<close> or \<^verbatim>\<open>undefined\<close> raises.\<close>

definition js_get :: "engine \<Rightarrow> jsval \<Rightarrow> segment \<Rightarrow> js_error + jsres" where
  "js_get eng v k = (if v = JNull \<or> v = JUndefined then Inl TypeError else Inr (own eng v k))"

text \<open>
  \<^verbatim>\<open>obj[k] = v\<close> in strict mode, returning the object after the assignment.
  \<^item> An index beyond the end of a sequence extends it, the positions in between reading
    as \<^verbatim>\<open>undefined\<close>.
  \<^item> The \<^verbatim>\<open>length\<close> of a sequence converts the value to a number, raises a RangeError
    unless that is an integer from \<open>0\<close> to \<open>2^32 - 1\<close>, and cuts or extends the sequence.
  \<^item> \<^verbatim>\<open>__proto__\<close>, where the object has no own property of that name, runs the setter
    that \<^verbatim>\<open>Object.prototype\<close> defines: it does nothing for a primitive receiver or a
    value that is neither an object nor \<^verbatim>\<open>null\<close>, and changes the prototype otherwise.
  \<^item> Any other name becomes an own property of a mapping or sequence, also where a
    function of that name is inherited.
\<close>

definition to_length :: "engine \<Rightarrow> jsval \<Rightarrow> js_error + nat" where
  "to_length eng v =
     (case v of
        JNum n \<Rightarrow> if 0 \<le> n \<and> n < 4294967296 then Inr (nat n) else Inl RangeError
      | JBool b \<Rightarrow> Inr (if b then 1 else 0)
      | JNull \<Rightarrow> Inr 0
      | JUndefined \<Rightarrow> Inl RangeError
      | JObj ps \<Rightarrow> if ps = [] then Inl RangeError else length_coercion eng v
      | JArr xs ps \<Rightarrow> if xs = [] \<and> ps = [] then Inr 0 else length_coercion eng v
      | JStr s \<Rightarrow> length_coercion eng v)"

definition resize :: "nat \<Rightarrow> jsval list \<Rightarrow> jsval list" where
  "resize n xs = (if n \<le> length xs then take n xs else xs @ replicate (n - length xs) JUndefined)"

definition proto_setter :: "jsval \<Rightarrow> jsval \<Rightarrow> js_error + jsval" where
  "proto_setter obj v = (if typeof_object v then Inl OutsideModel else Inr obj)"

fun js_set :: "engine \<Rightarrow> jsval \<Rightarrow> segment \<Rightarrow> jsval \<Rightarrow> js_error + jsval" where
  "js_set eng (JObj ps) k v =
     (if prop_name eng k = ''__proto__'' \<and> map_of ps (prop_name eng k) = None
      then proto_setter (JObj ps) v
      else Inr (JObj (AList.update (prop_name eng k) v ps)))"
| "js_set eng (JArr xs ps) k v =
     (case array_index (prop_name eng k) of
        Some n \<Rightarrow>
          Inr (JArr (if n < length xs then xs[n := v]
                     else xs @ replicate (n - length xs) JUndefined @ [v]) ps)
      | None \<Rightarrow>
          if prop_name eng k = ''length'' then
            (case to_length eng v of Inl e \<Rightarrow> Inl e | Inr n \<Rightarrow> Inr (JArr (resize n xs) ps))
          else if prop_name eng k = ''__proto__'' \<and> map_of ps (prop_name eng k) = None
          then proto_setter (JArr xs ps) v
          else Inr (JArr xs (AList.update (prop_name eng k) v ps)))"
| "js_set eng JNull k v = Inl TypeError"
| "js_set eng JUndefined k v = Inl TypeError"
| "js_set eng obj k v = (if prop_name eng k = ''__proto__'' then Inr obj else Inl TypeError)"

subsection \<open>The store\<close>

text \<open>
  \<^verbatim>\<open>
  constructor() {
      super();
      this._config = {};
      this._watchedFiles = new Map();
      this._watchDebounces = new Map();
      this._configPath = null;
  }
  \<close>
  The two maps of the watch protocol are part of the runtime state further below.
\<close>

record store =
  config :: jsval
  configPath :: "string option"

definition new_store :: store where
  "new_store = \<lparr>config = JObj [], configPath = None\<rparr>"

subsection \<open>\<^verbatim>\<open>getConfig\<close>\<close>

text \<open>
  \<^verbatim>\<open>
  getConfig(key) {
      if (!key) return this._config;
      const keys = ConfigService._parsePath(key);
      return keys.reduce((acc, k) => (acc && acc[k] !== undefined ? acc[k] : undefined), this._config);
  }
  \<close>
  The accumulator is the result of a read. Once it is a built-in object, the next step
  reads a property of that object, which the embedding leaves to the runtime.
\<close>

definition reduce_step :: "engine \<Rightarrow> jsres \<Rightarrow> segment \<Rightarrow> js_error + jsres" where
  "reduce_step eng acc k =
     (case acc of
        Builtin b \<Rightarrow> Inl OutsideModel
      | Val a \<Rightarrow>
          if truthy a then
            (case js_get eng a k of
               Inl e \<Rightarrow> Inl e
             | Inr x \<Rightarrow> if x \<noteq> Val JUndefined then js_get eng a k else Inr (Val JUndefined))
          else Inr (Val JUndefined))"

fun resolve :: "engine \<Rightarrow> jsres \<Rightarrow> segment list \<Rightarrow> js_error + jsres" where
  "resolve eng acc [] = Inr acc"
| "resolve eng acc (k # ks) =
     (case reduce_step eng acc k of Inl e \<Rightarrow> Inl e | Inr acc' \<Rightarrow> resolve eng acc' ks)"

definition getConfig :: "engine \<Rightarrow> store \<Rightarrow> string option \<Rightarrow> js_error + jsres" where
  "getConfig eng st key =
     (if falsy_key key then Inr (Val (config st))
      else resolve eng (Val (config st)) (parsePath key))"

subsection \<open>\<^verbatim>\<open>setConfig\<close>\<close>

text \<open>
  \<^verbatim>\<open>
  setConfig(key, value) {
      const keys = ConfigService._parsePath(key);
      if (keys.length === 0) return;
      let obj = this._config;
      for (let i = 0; i < keys.length - 1; i++) {
          const k = keys[i];
          const nextK = keys[i + 1];
          if (typeof nextK === 'number') {
              if (!Array.isArray(obj[k])) obj[k] = [];
          } else {
              if (!obj[k] || typeof obj[k] !== 'object') obj[k] = {};
          }
          obj = obj[k];
      }
      obj[keys[keys.length - 1]] = value;
  }
  \<close>
  The loop walks down the document by reference and mutates in place. \<open>assign\<close> is the
  loop as a recursion on the remaining segments: \<open>materialize\<close> is the body of the
  conditional, \<open>js_get eng obj1 k\<close> is \<^verbatim>\<open>obj = obj[k]\<close>, the recursive call is the rest
  of the loop on that object, and because the object is shared with its parent, the
  parent afterwards holds the mutated object at \<open>k\<close>. Where \<^verbatim>\<open>obj[k]\<close> is a built-in
  object, the rest of the loop works on that object and is left to the runtime. When the
  call raises, the embedding tells the error and not what the document has become.

  A call \<^emph>\<open>completes within the document\<close> when its result is \<open>Inr\<close>: it has returned
  normally, and it has neither read or written a property of a built-in object nor given
  an object another prototype. The result \<open>Inl OutsideModel\<close> says that the call has not
  raised before it came to do one of these.
\<close>

definition materialize :: "engine \<Rightarrow> jsval \<Rightarrow> segment \<Rightarrow> segment \<Rightarrow> js_error + jsval" where
  "materialize eng obj k nextK =
     (case js_get eng obj k of
        Inl e \<Rightarrow> Inl e
      | Inr cur \<Rightarrow>
          if is_index nextK then
            (if \<not> res_array cur then js_set eng obj k (JArr [] []) else Inr obj)
          else
            (if \<not> res_truthy cur \<or> \<not> res_object cur then js_set eng obj k (JObj [])
             else Inr obj))"

fun assign :: "engine \<Rightarrow> jsval \<Rightarrow> segment list \<Rightarrow> jsval \<Rightarrow> js_error + jsval" where
  "assign eng obj [] v = Inr obj"
| "assign eng obj [k] v = js_set eng obj k v"
| "assign eng obj (k # nextK # ks) v =
     (case materialize eng obj k nextK of
        Inl e \<Rightarrow> Inl e
      | Inr obj1 \<Rightarrow>
          (case js_get eng obj1 k of
             Inl e \<Rightarrow> Inl e
           | Inr (Builtin b) \<Rightarrow> Inl OutsideModel
           | Inr (Val child) \<Rightarrow>
               (case assign eng child (nextK # ks) v of
                  Inl e \<Rightarrow> Inl e
                | Inr child' \<Rightarrow> js_set eng obj1 k child')))"

definition setConfig :: "engine \<Rightarrow> store \<Rightarrow> string option \<Rightarrow> jsval \<Rightarrow> js_error + store" where
  "setConfig eng st key v =
     (if parsePath key = [] then Inr st
      else (case assign eng (config st) (parsePath key) v of
              Inl e \<Rightarrow> Inl e
            | Inr d \<Rightarrow> Inr (st\<lparr>config := d\<rparr>)))"



text \<open>
  \<open>stores eng obj k\<close>: the segment \<open>k\<close> names a property of \<open>obj\<close> that an assignment
  stores and a read returns. That is every property of a mapping or a sequence except
  the \<^verbatim>\<open>length\<close> of a sequence, which converts what is assigned, and except a
  \<^verbatim>\<open>__proto__\<close> that is not an own property, which is the accessor of the prototype.
\<close>

definition stores :: "engine \<Rightarrow> jsval \<Rightarrow> segment \<Rightarrow> bool" where
  "stores eng obj k =
     (case obj of
        JObj ps \<Rightarrow> prop_name eng k \<noteq> ''__proto__'' \<or> map_of ps (prop_name eng k) \<noteq> None
      | JArr xs ps \<Rightarrow>
          prop_name eng k \<noteq> ''length''
          \<and> (prop_name eng k \<noteq> ''__proto__'' \<or> map_of ps (prop_name eng k) \<noteq> None)
      | _ \<Rightarrow> False)"

subsection \<open>The platform\<close>

text \<open>
  The service calls Node's \<^verbatim>\<open>path\<close> and \<^verbatim>\<open>fs\<close> modules and four codec libraries,
  none of which is code of this repository. They are parameters of the embedding: a
  record of the pure functions, and a record of the two file-system operations that
  \<^verbatim>\<open>loadConfig\<close> uses, whose answers change over time. A decoder returns \<open>Inl\<close> when it
  throws. \<^verbatim>\<open>csv-parse\<close> with \<^verbatim>\<open>columns: true\<close> returns one object per row, keyed by
  the header, with strings as values; a row is given by its entries.
\<close>

record platform =
  resolve_path :: "string \<Rightarrow> string"
  extname :: "string \<Rightarrow> string"
  toLowerCase :: "string \<Rightarrow> string"
  json_parse :: "string \<Rightarrow> js_error + jsval"
  ini_parse :: "string \<Rightarrow> js_error + jsval"
  xml_parse :: "string \<Rightarrow> js_error + jsval"
  csv_parse :: "string \<Rightarrow> js_error + (string \<times> string) list list"
  json_stringify :: "jsval \<Rightarrow> js_error + string"
  ini_stringify :: "jsval \<Rightarrow> js_error + string"
  xml_build :: "jsval \<Rightarrow> js_error + string"
  csv_stringify :: "jsval \<Rightarrow> js_error + string"

record filesys =
  existsSync :: "string \<Rightarrow> bool"
  readFile :: "string \<Rightarrow> js_error + string"

subsection \<open>\<^verbatim>\<open>_detectFormat\<close>\<close>

text \<open>
  \<^verbatim>\<open>
  _detectFormat(filePath) {
      const ext = path.extname(filePath).toLowerCase();
      if (ext === '.json') return 'json';
      if (ext === '.ini') return 'ini';
      if (ext === '.xml') return 'xml';
      if (ext === '.csv') return 'csv';
      throw new Error(`Unsupported config file extension: ${ext}`);
  }
  \<close>
\<close>

datatype format = Json | Ini | Xml | Csv

definition detectFormat :: "platform \<Rightarrow> string \<Rightarrow> js_error + format" where
  "detectFormat plat filePath =
     (let ext = toLowerCase plat (extname plat filePath) in
      if ext = ''.json'' then Inr Json
      else if ext = ''.ini'' then Inr Ini
      else if ext = ''.xml'' then Inr Xml
      else if ext = ''.csv'' then Inr Csv
      else Inl (UnsupportedFormat ext))"

subsection \<open>\<^verbatim>\<open>loadConfig\<close>\<close>

text \<open>
  \<^verbatim>\<open>
  async loadConfig(configPath) {
      const absPath = path.resolve(configPath);
      if (!fs.existsSync(absPath)) throw new Error('Config file does not exist');
      const format = this._detectFormat(absPath);
      const raw = await fs.promises.readFile(absPath, 'utf8');
      switch (format) {
          case 'json': this._config = JSON.parse(raw); break;
          case 'ini':  this._config = ini.parse(raw); break;
          case 'xml': { const parser = new XMLParser({...}); this._config = parser.parse(raw); break; }
          case 'csv': {
              const records = csvParse.parse(raw, { columns: true });
              if (records.length && Object.keys(records[0]).length === 2) {
                  const keys = Object.keys(records[0]);
                  this._config = {};
                  records.forEach(row => { this._config[row[keys[0]]] = row[keys[1]]; });
              } else {
                  this._config = { records };
              }
              break;
          }
      }
      this._configPath = absPath;
  }
  \<close>
  The csv case first. \<open>row_cell\<close> is \<^verbatim>\<open>row[k]\<close>; a missing cell is \<^verbatim>\<open>undefined\<close>, which
  as a property name reads \<^verbatim>\<open>'undefined'\<close>. A row whose first cell is \<^verbatim>\<open>__proto__\<close>
  stores nothing: the assignment runs the setter of the prototype with a value that is
  not an object.
\<close>

definition row_keys :: "(string \<times> string) list \<Rightarrow> string list" where
  "row_keys row = remdups (map fst row)"

definition row_cell :: "(string \<times> string) list \<Rightarrow> string \<Rightarrow> jsval" where
  "row_cell row k = (case map_of row k of Some s \<Rightarrow> JStr s | None \<Rightarrow> JUndefined)"

definition cell_name :: "jsval \<Rightarrow> string" where
  "cell_name v = (case v of JStr s \<Rightarrow> s | _ \<Rightarrow> ''undefined'')"

definition row_object :: "(string \<times> string) list \<Rightarrow> jsval" where
  "row_object row = JObj (map (\<lambda>k. (k, row_cell row k)) (row_keys row))"

definition csv_to_config :: "(string \<times> string) list list \<Rightarrow> jsval" where
  "csv_to_config records =
     (if records \<noteq> [] \<and> length (row_keys (hd records)) = 2 then
        (let keys = row_keys (hd records) in
         JObj (foldl (\<lambda>cfg row.
                        if cell_name (row_cell row (keys ! 0)) = ''__proto__'' then cfg
                        else AList.update (cell_name (row_cell row (keys ! 0)))
                               (row_cell row (keys ! 1)) cfg) [] records))
      else JObj [(''records'', JArr (map row_object records) [])])"

definition decode :: "platform \<Rightarrow> format \<Rightarrow> string \<Rightarrow> js_error + jsval" where
  "decode plat fmt raw =
     (case fmt of
        Json \<Rightarrow> json_parse plat raw
      | Ini \<Rightarrow> ini_parse plat raw
      | Xml \<Rightarrow> xml_parse plat raw
      | Csv \<Rightarrow> (case csv_parse plat raw of
                  Inl e \<Rightarrow> Inl e
                | Inr records \<Rightarrow> Inr (csv_to_config records)))"

text \<open>
  A method that throws leaves the object as the statements before the throw made it, so
  \<open>loadConfig\<close> returns its outcome together with the store. Both fields are assigned
  only after the decoder has returned.
\<close>

definition loadConfig ::
  "platform \<Rightarrow> filesys \<Rightarrow> store \<Rightarrow> string \<Rightarrow> (js_error + unit) \<times> store" where
  "loadConfig plat fs st configPath' =
     (let absPath = resolve_path plat configPath' in
      if \<not> existsSync fs absPath then (Inl FileNotFound, st)
      else
        (case detectFormat plat absPath of
           Inl e \<Rightarrow> (Inl e, st)
         | Inr fmt \<Rightarrow>
             (case readFile fs absPath of
                Inl e \<Rightarrow> (Inl e, st)
              | Inr raw \<Rightarrow>
                  (case decode plat fmt raw of
                     Inl e \<Rightarrow> (Inl e, st)
                   | Inr doc \<Rightarrow>
                       (Inr (), st\<lparr>config := doc, configPath := Some absPath\<rparr>)))))"

text \<open>
  What a load of the file at an absolute path yields, as a function of the platform and
  the file system alone (used to state that a load does not depend on the store).
\<close>

definition decode_file :: "platform \<Rightarrow> filesys \<Rightarrow> string \<Rightarrow> js_error + jsval" where
  "decode_file plat fs absPath =
     (if \<not> existsSync fs absPath then Inl FileNotFound
      else
        (case detectFormat plat absPath of
           Inl e \<Rightarrow> Inl e
         | Inr fmt \<Rightarrow>
             (case readFile fs absPath of
                Inl e \<Rightarrow> Inl e
              | Inr raw \<Rightarrow> decode plat fmt raw)))"

subsection \<open>\<^verbatim>\<open>saveConfig\<close>\<close>

text \<open>
  \<^verbatim>\<open>
  async saveConfig(savePath = null) {
      const filePath = savePath ? path.resolve(savePath) : this._configPath;
      if (!filePath) throw new Error('No config file path specified');
      const format = this._detectFormat(filePath);
      let out;
      switch (format) {
          case 'json': out = JSON.stringify(this._config, null, 2); break;
          case 'ini':  out = ini.stringify(this._config); break;
          case 'xml': { const builder = new XMLBuilder({...}); out = builder.build(this._config); break; }
          case 'csv': {
              let records;
              if (Object.values(this._config).every(v => typeof v !== 'object' || Array.isArray(v))) {
                  records = Object.entries(this._config).map(([k, v]) => ({ key: k, value: v }));
              } else if (Array.isArray(this._config.records)) {
                  records = this._config.records;
              } else {
                  throw new Error('Unsupported structure for csv export');
              }
              out = csvStringify.stringify(records, { header: true });
              break;
          }
      }
      await fs.promises.writeFile(filePath, out, 'utf8');
  }
  \<close>
  \<open>object_entries\<close> is \<^verbatim>\<open>Object.entries\<close>: the own enumerable properties of a value,
  which raises on \<^verbatim>\<open>null\<close> and \<^verbatim>\<open>undefined\<close>. \<open>csv_records\<close> is the csv case up to
  the value of \<^verbatim>\<open>records\<close> that is handed to the library. \<open>saveConfig\<close> returns the
  path and the contents of the write it requests.
\<close>

definition indexed :: "jsval list \<Rightarrow> (string \<times> jsval) list" where
  "indexed xs = zip (map string_of_nat [0..<length xs]) xs"

definition entries :: "(string \<times> jsval) list \<Rightarrow> (string \<times> jsval) list" where
  "entries ps =
     map (\<lambda>k. (k, case map_of ps k of Some v \<Rightarrow> v | None \<Rightarrow> JUndefined)) (remdups (map fst ps))"

definition object_entries :: "jsval \<Rightarrow> js_error + (string \<times> jsval) list" where
  "object_entries v =
     (case v of
        JUndefined \<Rightarrow> Inl TypeError
      | JNull \<Rightarrow> Inl TypeError
      | JBool b \<Rightarrow> Inr []
      | JNum n \<Rightarrow> Inr []
      | JStr s \<Rightarrow> Inr (indexed (map (\<lambda>c. JStr [c]) s))
      | JObj ps \<Rightarrow> Inr (entries ps)
      | JArr xs ps \<Rightarrow> Inr (indexed xs @ entries ps))"

definition key_value_row :: "string \<times> jsval \<Rightarrow> jsval" where
  "key_value_row e = JObj [(''key'', JStr (fst e)), (''value'', snd e)]"

definition csv_records :: "engine \<Rightarrow> jsval \<Rightarrow> js_error + jsval" where
  "csv_records eng doc =
     (case object_entries doc of
        Inl e \<Rightarrow> Inl e
      | Inr es \<Rightarrow>
          if list_all (\<lambda>e. \<not> typeof_object (snd e) \<or> isArray (snd e)) es
          then Inr (JArr (map key_value_row es) [])
          else if res_array (own eng doc (Key ''records'')) then
            (case own eng doc (Key ''records'') of
               Val records \<Rightarrow> Inr records
             | Builtin b \<Rightarrow> Inl OutsideModel)
          else Inl UnsupportedStructure)"

definition encode :: "platform \<Rightarrow> engine \<Rightarrow> format \<Rightarrow> jsval \<Rightarrow> js_error + string" where
  "encode plat eng fmt doc =
     (case fmt of
        Json \<Rightarrow> json_stringify plat doc
      | Ini \<Rightarrow> ini_stringify plat doc
      | Xml \<Rightarrow> xml_build plat doc
      | Csv \<Rightarrow> (case csv_records eng doc of
                  Inl e \<Rightarrow> Inl e
                | Inr records \<Rightarrow> csv_stringify plat records))"

definition save_target :: "platform \<Rightarrow> store \<Rightarrow> string option \<Rightarrow> string option" where
  "save_target plat st savePath =
     (case savePath of
        None \<Rightarrow> configPath st
      | Some sp \<Rightarrow> if sp = [] then configPath st else Some (resolve_path plat sp))"

definition saveConfig ::
  "platform \<Rightarrow> engine \<Rightarrow> store \<Rightarrow> string option \<Rightarrow> js_error + string \<times> string" where
  "saveConfig plat eng st savePath =
     (if falsy_key (save_target plat st savePath) then Inl NoSavePath
      else
        (let filePath = the (save_target plat st savePath) in
         case detectFormat plat filePath of
           Inl e \<Rightarrow> Inl e
         | Inr fmt \<Rightarrow>
             (case encode plat eng fmt (config st) of
                Inl e \<Rightarrow> Inl e
              | Inr out \<Rightarrow> Inr (filePath, out))))"

subsection \<open>\<^verbatim>\<open>watchConfig\<close>, \<^verbatim>\<open>unwatchConfig\<close> and the timers\<close>

text \<open>
  \<^verbatim>\<open>
  watchConfig(configPath, callback) {
      const absPath = path.resolve(configPath);
      if (this._watchedFiles.has(absPath)) return;
      let debounceTimeout = null;
      const DEBOUNCE_MS = 150;
      const handler = async (eventType) => {
          if (eventType === 'change' || eventType === 'rename') {
              clearTimeout(debounceTimeout);
              debounceTimeout = setTimeout(async () => {
                  try {
                      await this.loadConfig(absPath);
                      callback(this._config);
                      this.emit('configChanged', this._config);
                  } catch (e) {
                      console.error(`Error reloading config (${absPath}):`, e);
                      this.emit('configReloadError', e);
                  }
              }, DEBOUNCE_MS);
          }
      };
      const watcher = fs.watch(absPath, handler);
      this._watchedFiles.set(absPath, watcher);
      this._watchDebounces.set(absPath, () => clearTimeout(debounceTimeout));
  }

  unwatchConfig(configPath) {
      const absPath = path.resolve(configPath);
      const watcher = this._watchedFiles.get(absPath);
      if (watcher) { watcher.close(); this._watchedFiles.delete(absPath); }
      const clearDebounce = this._watchDebounces.get(absPath);
      if (clearDebounce) { clearDebounce(); this._watchDebounces.delete(absPath); }
  }
  \<close>
  The runtime state holds the service together with the part of Node's event loop that
  these methods use, on a clock that counts milliseconds:
  \<^item> \<open>watchedFiles\<close> maps an absolute path to the open watcher, given by the callback
    that its handler was registered with;
  \<^item> \<open>watchDebounces\<close> tells the paths that have a clear function registered;
  \<^item> \<open>debounceTimeout\<close> is the variable of that name in the closure of the entry
    registered for a path, \<open>None\<close> for \<^verbatim>\<open>null\<close> (a path has at most one live entry,
    since \<^verbatim>\<open>watchConfig\<close> returns early on a watched path);
  \<^item> \<open>timers\<close> are the pending timeouts in the order of their creation, each with its
    handle, the time it is due and the \<^verbatim>\<open>absPath\<close> and \<^verbatim>\<open>callback\<close> that its function
    closes over;
  \<^item> \<open>journal\<close> records what the timer functions do: the call of \<^verbatim>\<open>loadConfig\<close>, the
    call of the callback, and the two \<^verbatim>\<open>emit\<close>s. Every record carries the path of the
    entry whose timer made it.

  The callback and the listeners of \<^verbatim>\<open>configChanged\<close> are code of the caller. What
  they do is a parameter (the record \<open>hooks\<close>): \<open>callback_outcome cb doc\<close> is the error
  that the callback registered as \<open>cb\<close> throws when it is called with \<open>doc\<close>, or \<open>None\<close>
  when it returns; a value that is not a function counts as a callback that throws the
  TypeError of the call. \<open>listener_outcome doc\<close> is the same for
  \<^verbatim>\<open>emit('configChanged', doc)\<close>, which runs the listeners in turn and passes on what
  one of them throws. Both calls are inside the \<^verbatim>\<open>try\<close> block.

  Taken for granted: the callback and the listeners neither call the service nor change
  the document that they are given; the listeners of \<^verbatim>\<open>configReloadError\<close> return
  normally; and the reload inside a timer function is one step, so that what happens
  while it awaits the file is not interleaved with other events.
\<close>

record hooks =
  callback_outcome :: "string \<Rightarrow> jsval \<Rightarrow> js_error option"
  listener_outcome :: "jsval \<Rightarrow> js_error option"

record timer =
  handle :: nat
  due :: nat
  tpath :: string
  tcallback :: string

datatype notification =
    Reload string
  | Called string string jsval
  | ConfigChanged string jsval
  | ConfigReloadError string js_error

fun about :: "notification \<Rightarrow> string" where
  "about (Reload p) = p"
| "about (Called p cb d) = p"
| "about (ConfigChanged p d) = p"
| "about (ConfigReloadError p e) = p"

record runtime =
  service :: store
  watchedFiles :: "string \<Rightarrow> string option"
  watchDebounces :: "string \<Rightarrow> bool"
  debounceTimeout :: "string \<Rightarrow> nat option"
  timers :: "timer list"
  next_handle :: nat
  now :: nat
  journal :: "notification list"

definition new_runtime :: runtime where
  "new_runtime =
     \<lparr>service = new_store, watchedFiles = (\<lambda>p. None), watchDebounces = (\<lambda>p. False),
      debounceTimeout = (\<lambda>p. None), timers = [], next_handle = 0, now = 0, journal = []\<rparr>"

definition DEBOUNCE_MS :: nat where
  "DEBOUNCE_MS = 150"

text \<open>\<^verbatim>\<open>clearTimeout(h)\<close>: nothing happens for \<^verbatim>\<open>null\<close> or for a timer that has fired.\<close>

definition clearTimeout :: "nat option \<Rightarrow> runtime \<Rightarrow> runtime" where
  "clearTimeout h rt =
     (case h of
        None \<Rightarrow> rt
      | Some i \<Rightarrow> rt\<lparr>timers := filter (\<lambda>t. handle t \<noteq> i) (timers rt)\<rparr>)"

text \<open>\<^verbatim>\<open>setTimeout(f, ms)\<close> for the function that closes over \<open>absPath\<close> and \<open>cb\<close>.\<close>

definition setTimeout :: "string \<Rightarrow> string \<Rightarrow> nat \<Rightarrow> runtime \<Rightarrow> nat \<times> runtime" where
  "setTimeout absPath cb ms rt =
     (next_handle rt,
      rt\<lparr>timers := timers rt @
              [\<lparr>handle = next_handle rt, due = now rt + ms, tpath = absPath, tcallback = cb\<rparr>],
         next_handle := Suc (next_handle rt)\<rparr>)"

definition handler :: "string \<Rightarrow> string \<Rightarrow> string \<Rightarrow> runtime \<Rightarrow> runtime" where
  "handler absPath cb eventType rt =
     (if eventType = ''change'' \<or> eventType = ''rename'' then
        (let rt1 = clearTimeout (debounceTimeout rt absPath) rt;
             (h, rt2) = setTimeout absPath cb DEBOUNCE_MS rt1
         in rt2\<lparr>debounceTimeout := (debounceTimeout rt2)(absPath := Some h)\<rparr>)
      else rt)"

text \<open>
  The function that the timer runs. \<open>notify\<close> is the rest of the \<^verbatim>\<open>try\<close> block after
  the load has returned, together with the \<^verbatim>\<open>catch\<close> block for what it throws.
\<close>

definition notify :: "hooks \<Rightarrow> string \<Rightarrow> string \<Rightarrow> jsval \<Rightarrow> notification list" where
  "notify hk absPath cb doc =
     (case callback_outcome hk cb doc of
        Some e \<Rightarrow> [Called absPath cb doc, ConfigReloadError absPath e]
      | None \<Rightarrow>
          (case listener_outcome hk doc of
             Some e \<Rightarrow> [Called absPath cb doc, ConfigChanged absPath doc, ConfigReloadError absPath e]
           | None \<Rightarrow> [Called absPath cb doc, ConfigChanged absPath doc]))"

definition reload ::
  "platform \<Rightarrow> filesys \<Rightarrow> hooks \<Rightarrow> string \<Rightarrow> string \<Rightarrow> runtime \<Rightarrow> runtime" where
  "reload plat fs hk absPath cb rt =
     (case loadConfig plat fs (service rt) absPath of
        (Inr u, st) \<Rightarrow>
          rt\<lparr>service := st,
             journal := journal rt @ Reload absPath # notify hk absPath cb (config st)\<rparr>
      | (Inl e, st) \<Rightarrow>
          rt\<lparr>service := st,
             journal := journal rt @ [Reload absPath, ConfigReloadError absPath e]\<rparr>)"

text \<open>\<^verbatim>\<open>fs.watch\<close> throws when the file does not exist.\<close>

definition watchConfig ::
  "platform \<Rightarrow> filesys \<Rightarrow> string \<Rightarrow> string \<Rightarrow> runtime \<Rightarrow> js_error + runtime" where
  "watchConfig plat fs configPath' cb rt =
     (let absPath = resolve_path plat configPath' in
      if watchedFiles rt absPath \<noteq> None then Inr rt
      else if \<not> existsSync fs absPath then Inl (LibraryError ''ENOENT'')
      else Inr (rt\<lparr>watchedFiles := (watchedFiles rt)(absPath := Some cb),
                   watchDebounces := (watchDebounces rt)(absPath := True),
                   debounceTimeout := (debounceTimeout rt)(absPath := None)\<rparr>))"

definition unwatchConfig :: "platform \<Rightarrow> string \<Rightarrow> runtime \<Rightarrow> runtime" where
  "unwatchConfig plat configPath' rt =
     (let absPath = resolve_path plat configPath';
          rt1 = (case watchedFiles rt absPath of
                   Some w \<Rightarrow> rt\<lparr>watchedFiles := (watchedFiles rt)(absPath := None)\<rparr>
                 | None \<Rightarrow> rt)
      in if watchDebounces rt1 absPath
         then (clearTimeout (debounceTimeout rt1 absPath) rt1)
                \<lparr>watchDebounces := (watchDebounces rt1)(absPath := False)\<rparr>
         else rt1)"

text \<open>
  The events of a run. \<open>FsEvent p e\<close> is a raw notification of the file system for the
  watcher open on \<open>p\<close>; a closed watcher receives none. \<open>Elapse d\<close> lets \<open>d\<close> milliseconds
  pass and then runs, in the order of their creation, the timers that have become due.
  A call of \<^verbatim>\<open>watchConfig\<close> that throws leaves the state as it was. The file system is
  a function of the time.
\<close>

datatype event =
    WatchConfig string string
  | UnwatchConfig string
  | FsEvent string string
  | Elapse nat

definition fire :: "platform \<Rightarrow> filesys \<Rightarrow> hooks \<Rightarrow> runtime \<Rightarrow> timer \<Rightarrow> runtime" where
  "fire plat fs hk rt t = reload plat fs hk (tpath t) (tcallback t) rt"

definition run_due :: "platform \<Rightarrow> filesys \<Rightarrow> hooks \<Rightarrow> runtime \<Rightarrow> runtime" where
  "run_due plat fs hk rt =
     foldl (fire plat fs hk)
       (rt\<lparr>timers := filter (\<lambda>t. \<not> due t \<le> now rt) (timers rt)\<rparr>)
       (filter (\<lambda>t. due t \<le> now rt) (timers rt))"

definition step ::
  "platform \<Rightarrow> (nat \<Rightarrow> filesys) \<Rightarrow> hooks \<Rightarrow> runtime \<Rightarrow> event \<Rightarrow> runtime" where
  "step plat fsys hk rt ev =
     (case ev of
        WatchConfig p cb \<Rightarrow>
          (case watchConfig plat (fsys (now rt)) p cb rt of Inl e \<Rightarrow> rt | Inr rt' \<Rightarrow> rt')
      | UnwatchConfig p \<Rightarrow> unwatchConfig plat p rt
      | FsEvent p e \<Rightarrow>
          (case watchedFiles rt p of Some cb \<Rightarrow> handler p cb e rt | None \<Rightarrow> rt)
      | Elapse d \<Rightarrow> run_due plat (fsys (now rt + d)) hk (rt\<lparr>now := now rt + d\<rparr>))"

definition run ::
  "platform \<Rightarrow> (nat \<Rightarrow> filesys) \<Rightarrow> hooks \<Rightarrow> runtime \<Rightarrow> event list \<Rightarrow> runtime" where
  "run plat fsys hk rt evs = foldl (step plat fsys hk) rt evs"

text \<open>
  A burst of raw notifications for one path: the first one, then further ones, each
  after a gap; and the records of the journal that concern a path.
\<close>

definition burst :: "string \<Rightarrow> string \<Rightarrow> (nat \<times> string) list \<Rightarrow> event list" where
  "burst p e0 further = FsEvent p e0 # concat (map (\<lambda>(g, e). [Elapse g, FsEvent p e]) further)"

definition records_of :: "string \<Rightarrow> runtime \<Rightarrow> notification list" where
  "records_of p rt = filter (\<lambda>n. about n = p) (journal rt)"

fun is_reload :: "notification \<Rightarrow> bool" where
  "is_reload (Reload p) = True"
| "is_reload n = False"

fun is_call :: "notification \<Rightarrow> bool" where
  "is_call (Called p cb d) = True"
| "is_call n = False"

definition watch_event :: "string \<Rightarrow> bool" where
  "watch_event e = (e = ''change'' \<or> e = ''rename'')"

text \<open>What one reload of \<open>p\<close> adds to the journal.\<close>

definition reload_records ::
  "platform \<Rightarrow> filesys \<Rightarrow> hooks \<Rightarrow> string \<Rightarrow> string \<Rightarrow> notification list" where
  "reload_records plat fs hk p cb =
     (case decode_file plat fs (resolve_path plat p) of
        Inr doc \<Rightarrow> Reload p # notify hk p cb doc
      | Inl e \<Rightarrow> [Reload p, ConfigReloadError p e])"

text \<open>
  The states that a run can reach satisfy: every pending timer is the one that the
  closure variable of its path holds, its path is watched, and a watched path has its
  clear function registered.
\<close>

definition timers_ok :: "runtime \<Rightarrow> bool" where
  "timers_ok rt =
     ((\<forall>t \<in> set (timers rt). debounceTimeout rt (tpath t) = Some (handle t)
                                \<and> watchedFiles rt (tpath t) \<noteq> None)
      \<and> (\<forall>p. watchedFiles rt p \<noteq> None \<longrightarrow> watchDebounces rt p))"

text \<open>A list of events that registers no watch on the absolute path \<open>a\<close>.\<close>

definition no_rewatch :: "platform \<Rightarrow> string \<Rightarrow> event list \<Rightarrow> bool" where
  "no_rewatch plat a evs =
     list_all (\<lambda>ev. case ev of WatchConfig q cb \<Rightarrow> resolve_path plat q \<noteq> a | _ \<Rightarrow> True) evs"

text \<open>
  Two conditions on a runtime state, used to state what a burst and an unwatch leave
  behind. In an \<open>armed\<close> state the path is watched and has exactly one pending timer, set
  a full window ahead and held by the closure variable. In a \<open>quiet\<close> state the path is
  not watched and has no pending timer.
\<close>

definition armed :: "string \<Rightarrow> string \<Rightarrow> runtime \<Rightarrow> bool" where
  "armed p cb rt =
     (watchedFiles rt p = Some cb \<and> debounceTimeout rt p \<noteq> None \<and>
      filter (\<lambda>t. tpath t = p) (timers rt)
        = [\<lparr>handle = the (debounceTimeout rt p), due = now rt + DEBOUNCE_MS,
            tpath = p, tcallback = cb\<rparr>])"

definition quiet :: "string \<Rightarrow> runtime \<Rightarrow> bool" where
  "quiet a rt = (watchedFiles rt a = None \<and> filter (\<lambda>t. tpath t = a) (timers rt) = [])"

subsection \<open>A platform and a runtime for the examples\<close>

text \<open>
  An instance of the platform records on which the examples below are evaluated: paths
  are absolute already, the extension starts at the first dot, there is one file, a JSON
  file that holds the empty mapping, and the other codecs accept nothing. In \<open>fs_then\<close>
  the file is there at time \<open>0\<close> and gone afterwards.

  The engine of the examples has the string-named members that ECMAScript 2023 with its
  Annex B gives to the five prototypes; every kind inherits those of
  \<^verbatim>\<open>Object.prototype\<close>. Its two conversions, which no example reaches, answer
  \<^verbatim>\<open>Infinity\<close> and a RangeError. With \<open>quiet_hooks\<close> every callback and listener
  returns; with \<open>failing_callback\<close> every callback throws, with \<open>failing_listener\<close> a
  listener of \<^verbatim>\<open>configChanged\<close> does.
\<close>

definition object_members :: "string list" where
  "object_members =
     [''constructor'', ''hasOwnProperty'', ''isPrototypeOf'', ''propertyIsEnumerable'',
      ''toLocaleString'', ''toString'', ''valueOf'', ''__defineGetter__'',
      ''__defineSetter__'', ''__lookupGetter__'', ''__lookupSetter__'']"

definition array_members :: "string list" where
  "array_members =
     [''at'', ''concat'', ''copyWithin'', ''entries'', ''every'', ''fill'', ''filter'',
      ''find'', ''findIndex'', ''findLast'', ''findLastIndex'', ''flat'', ''flatMap'',
      ''forEach'', ''includes'', ''indexOf'', ''join'', ''keys'', ''lastIndexOf'', ''map'',
      ''pop'', ''push'', ''reduce'', ''reduceRight'', ''reverse'', ''shift'', ''slice'',
      ''some'', ''sort'', ''splice'', ''toReversed'', ''toSorted'', ''toSpliced'',
      ''unshift'', ''values'', ''with'']"

definition string_members :: "string list" where
  "string_members =
     [''at'', ''charAt'', ''charCodeAt'', ''codePointAt'', ''concat'', ''endsWith'',
      ''includes'', ''indexOf'', ''lastIndexOf'', ''localeCompare'', ''match'', ''matchAll'',
      ''normalize'', ''padEnd'', ''padStart'', ''repeat'', ''replace'', ''replaceAll'',
      ''search'', ''slice'', ''split'', ''startsWith'', ''substring'', ''toLocaleLowerCase'',
      ''toLocaleUpperCase'', ''toLowerCase'', ''toUpperCase'', ''trim'', ''trimEnd'',
      ''trimStart'', ''substr'', ''anchor'', ''big'', ''blink'', ''bold'', ''fixed'',
      ''fontcolor'', ''fontsize'', ''italics'', ''link'', ''small'', ''strike'', ''sub'',
      ''sup'', ''trimLeft'', ''trimRight'']"

definition number_members :: "string list" where
  "number_members = [''toExponential'', ''toFixed'', ''toPrecision'']"

definition demo_engine :: engine where
  "demo_engine =
     \<lparr>inherited = (\<lambda>kd name.
         name \<in> set object_members \<or>
         (case kd of
            KArray \<Rightarrow> name \<in> set array_members
          | KString \<Rightarrow> name \<in> set string_members
          | KNumber \<Rightarrow> name \<in> set number_members
          | _ \<Rightarrow> False)),
      number_key = (\<lambda>ds. ''Infinity''),
      length_coercion = (\<lambda>v. Inl RangeError)\<rparr>"

definition quiet_hooks :: hooks where
  "quiet_hooks = \<lparr>callback_outcome = (\<lambda>cb doc. None), listener_outcome = (\<lambda>doc. None)\<rparr>"

definition failing_callback :: hooks where
  "failing_callback =
     \<lparr>callback_outcome = (\<lambda>cb doc. Some (LibraryError ''callback'')),
      listener_outcome = (\<lambda>doc. None)\<rparr>"

definition failing_listener :: hooks where
  "failing_listener =
     \<lparr>callback_outcome = (\<lambda>cb doc. None),
      listener_outcome = (\<lambda>doc. Some (LibraryError ''listener''))\<rparr>"

definition demo_platform :: platform where
  "demo_platform =
     \<lparr>resolve_path = (\<lambda>p. p),
      extname = (\<lambda>p. dropWhile (\<lambda>c. c \<noteq> CHR ''.'') p),
      toLowerCase = (\<lambda>s. s),
      json_parse = (\<lambda>raw. if raw = ''{}'' then Inr (JObj []) else Inl (LibraryError ''SyntaxError'')),
      ini_parse = (\<lambda>raw. Inl (LibraryError ''ini'')),
      xml_parse = (\<lambda>raw. Inl (LibraryError ''xml'')),
      csv_parse = (\<lambda>raw. Inl (LibraryError ''csv'')),
      json_stringify = (\<lambda>d. if d = JObj [] then Inr ''{}'' else Inl (LibraryError ''json'')),
      ini_stringify = (\<lambda>d. Inl (LibraryError ''ini'')),
      xml_build = (\<lambda>d. Inl (LibraryError ''xml'')),
      csv_stringify = (\<lambda>d. Inl (LibraryError ''csv''))\<rparr>"

definition demo_files :: filesys where
  "demo_files =
     \<lparr>existsSync = (\<lambda>p. p = ''/etc/app.json''),
      readFile = (\<lambda>p. if p = ''/etc/app.json'' then Inr ''{}'' else Inl (LibraryError ''ENOENT''))\<rparr>"

definition no_files :: filesys where
  "no_files = \<lparr>existsSync = (\<lambda>p. False), readFile = (\<lambda>p. Inl (LibraryError ''ENOENT''))\<rparr>"

definition fs_always :: "nat \<Rightarrow> filesys" where
  "fs_always t = demo_files"

definition fs_then :: "nat \<Rightarrow> filesys" where
  "fs_then t = (if t = 0 then demo_files else no_files)"

section \<open>Properties of the path operations\<close>

subsection \<open>Names of segments\<close>






subsection \<open>Reading\<close>

















subsection \<open>Writing one property\<close>








subsection \<open>The loop of \<^verbatim>\<open>setConfig\<close>\<close>





























subsection \<open>The scanner\<close>










subsection \<open>Claims about \<^verbatim>\<open>setConfig\<close> and \<^verbatim>\<open>getConfig\<close>\<close>

lemmas path_eval =
  parsePath_def is_delim_def is_digit_def nat_of_digits_def digit_val_def setConfig_def
  getConfig_def falsy_key_def materialize_def js_get_def truthy_def typeof_object_def
  isArray_def lookup_prop_def array_index_def canonical_nat_def reduce_step_def
  new_store_def string_of_nat.simps digit_char_def is_container_def is_scalar_def
  number_segment_def exact_limit_def inherited_member_def proto_setter_def to_length_def
  resize_def stores_def









text \<open>
  Claim C2. The claim is that \<^verbatim>\<open>setConfig("arr.0.name", "x")\<close> on the empty document
  leaves \<^verbatim>\<open>{arr: [{name: "x"}]}\<close>. The code leaves \<^verbatim>\<open>{arr: {"0": {name: "x"}}}\<close>: the
  \<^verbatim>\<open>0\<close> of the dotted path is parsed as a key, so a mapping is stored under \<^verbatim>\<open>arr\<close>,
  against the comment of \<^verbatim>\<open>_parsePath\<close>, which announces \<^verbatim>\<open>['arr', 0, 'key']\<close> for
  \<^verbatim>\<open>'arr.0.key'\<close>.
\<close>

theorem setConfig_dotted_digit_is_key:
  "setConfig eng new_store (Some ''arr.0.name'') (JStr ''x'')
     = Inr \<lparr>config = JObj [(''arr'', JObj [(''0'', JObj [(''name'', JStr ''x'')])])],
            configPath = None\<rparr>
   \<and> setConfig eng new_store (Some ''arr.0.name'') (JStr ''x'')
     \<noteq> Inr \<lparr>config = JObj [(''arr'', JArr [JObj [(''name'', JStr ''x'')]] [])],
            configPath = None\<rparr>"
  by (simp add: path_eval)
















section \<open>Properties of loading and saving\<close>

lemma loadConfig_eq:
  "loadConfig plat fs st p =
     (case decode_file plat fs (resolve_path plat p) of
        Inl e \<Rightarrow> (Inl e, st)
      | Inr doc \<Rightarrow> (Inr (), st\<lparr>config := doc, configPath := Some (resolve_path plat p)\<rparr>))"
  by (simp add: loadConfig_def decode_file_def Let_def split: sum.splits)

lemmas demo_eval =
  demo_platform_def demo_files_def no_files_def fs_always_def fs_then_def loadConfig_def
  decode_file_def detectFormat_def decode_def save_target_def Let_def

text \<open>
  Claim C5. When the file does not exist, \<^verbatim>\<open>loadConfig\<close> fails with the error
  \<^verbatim>\<open>'Config file does not exist'\<close> and the store is as before; the same holds of every
  failing load. A load that succeeds replaces the document by what the file decodes to,
  whatever the document was, and remembers the absolute path, which is then the target of
  \<^verbatim>\<open>saveConfig()\<close> without an argument.
\<close>

theorem loadConfig_missing_file:
  "(\<forall>plat fs st p. \<not> existsSync fs (resolve_path plat p)
      \<longrightarrow> loadConfig plat fs st p = (Inl FileNotFound, st))
   \<and> (\<forall>plat fs st p e st'. loadConfig plat fs st p = (Inl e, st') \<longrightarrow> st' = st)
   \<and> (\<forall>plat fs st p st'. loadConfig plat fs st p = (Inr (), st')
      \<longrightarrow> decode_file plat fs (resolve_path plat p) = Inr (config st')
        \<and> configPath st' = Some (resolve_path plat p)
        \<and> save_target plat st' None = Some (resolve_path plat p)
        \<and> (\<forall>st2. snd (loadConfig plat fs st2 p)
              = st2\<lparr>config := config st', configPath := Some (resolve_path plat p)\<rparr>))"
proof (intro conjI allI impI)
  fix plat :: platform and fs :: filesys and st :: store and p
  assume "\<not> existsSync fs (resolve_path plat p)"
  then show "loadConfig plat fs st p = (Inl FileNotFound, st)"
    by (simp add: loadConfig_def)
next
  fix plat :: platform and fs :: filesys and st st' :: store and p e
  assume "loadConfig plat fs st p = (Inl e, st')"
  then show "st' = st"
    by (auto simp: loadConfig_eq split: sum.splits)
next
  fix plat :: platform and fs :: filesys and st st' :: store and p
  assume h: "loadConfig plat fs st p = (Inr (), st')"
  then obtain doc where d: "decode_file plat fs (resolve_path plat p) = Inr doc"
    and s: "st' = st\<lparr>config := doc, configPath := Some (resolve_path plat p)\<rparr>"
    by (auto simp: loadConfig_eq split: sum.splits)
  show "decode_file plat fs (resolve_path plat p) = Inr (config st')"
    using d s by simp
  show "configPath st' = Some (resolve_path plat p)"
    using s by simp
  show "save_target plat st' None = Some (resolve_path plat p)"
    using s by (simp add: save_target_def)
  fix st2 :: store
  show "snd (loadConfig plat fs st2 p)
      = st2\<lparr>config := config st', configPath := Some (resolve_path plat p)\<rparr>"
    using d s by (simp add: loadConfig_eq)
qed

theorem loadConfig_missing_file_witness:
  "\<not> existsSync demo_files (resolve_path demo_platform ''/etc/none.json'')
   \<and> loadConfig demo_platform demo_files \<lparr>config = JNum 3, configPath = None\<rparr> ''/etc/none.json''
       = (Inl FileNotFound, \<lparr>config = JNum 3, configPath = None\<rparr>)
   \<and> loadConfig demo_platform demo_files \<lparr>config = JNum 3, configPath = None\<rparr> ''/etc/app.json''
       = (Inr (), \<lparr>config = JObj [], configPath = Some ''/etc/app.json''\<rparr>)
   \<and> save_target demo_platform \<lparr>config = JObj [], configPath = Some ''/etc/app.json''\<rparr> None
       = Some ''/etc/app.json''"
proof -
  let ?st = "\<lparr>config = JNum 3, configPath = None\<rparr>"
  let ?st' = "\<lparr>config = JObj [], configPath = Some ''/etc/app.json''\<rparr>"
  have n: "\<not> existsSync demo_files (resolve_path demo_platform ''/etc/none.json'')"
    by (simp add: demo_eval)
  have 1: "loadConfig demo_platform demo_files ?st ''/etc/none.json'' = (Inl FileNotFound, ?st)"
    using loadConfig_missing_file [THEN conjunct1, rule_format, OF n] by simp
  have 2: "loadConfig demo_platform demo_files ?st ''/etc/app.json'' = (Inr (), ?st')"
    by (simp add: demo_eval)
  have 3: "save_target demo_platform ?st' None = Some ''/etc/app.json''"
    using loadConfig_missing_file [THEN conjunct2, THEN conjunct2, rule_format, OF 2]
    by (simp add: demo_eval)
  show ?thesis using n 1 2 3 by simp
qed

text \<open>
  Claim C10. \<^verbatim>\<open>loadConfig\<close> tests the existence of the file before it detects the format:
  for a path that does not exist and has an unsupported extension the error is the one for
  the missing file, and the error for an unsupported extension is raised for existing
  files only.
\<close>

theorem loadConfig_existence_before_format:
  "(\<forall>plat fs st p ext.
        \<not> existsSync fs (resolve_path plat p)
        \<and> detectFormat plat (resolve_path plat p) = Inl (UnsupportedFormat ext)
      \<longrightarrow> fst (loadConfig plat fs st p) = Inl FileNotFound
        \<and> fst (loadConfig plat fs st p) \<noteq> Inl (UnsupportedFormat ext))
   \<and> (\<forall>plat fs st p ext. fst (loadConfig plat fs st p) = Inl (UnsupportedFormat ext)
      \<longrightarrow> existsSync fs (resolve_path plat p))"
proof (intro conjI allI impI)
  fix plat :: platform and fs :: filesys and st :: store and p ext
  assume h: "\<not> existsSync fs (resolve_path plat p)
        \<and> detectFormat plat (resolve_path plat p) = Inl (UnsupportedFormat ext)"
  then show "fst (loadConfig plat fs st p) = Inl FileNotFound"
    by (simp add: loadConfig_def)
  from h show "fst (loadConfig plat fs st p) \<noteq> Inl (UnsupportedFormat ext)"
    by (simp add: loadConfig_def)
next
  fix plat :: platform and fs :: filesys and st :: store and p ext
  assume "fst (loadConfig plat fs st p) = Inl (UnsupportedFormat ext)"
  then show "existsSync fs (resolve_path plat p)"
    by (cases "existsSync fs (resolve_path plat p)") (simp_all add: loadConfig_def)
qed

theorem loadConfig_existence_before_format_witness:
  "\<not> existsSync demo_files (resolve_path demo_platform ''/etc/none.yaml'')
   \<and> detectFormat demo_platform (resolve_path demo_platform ''/etc/none.yaml'')
       = Inl (UnsupportedFormat ''.yaml'')
   \<and> fst (loadConfig demo_platform demo_files new_store ''/etc/none.yaml'') = Inl FileNotFound"
proof -
  have h: "\<not> existsSync demo_files (resolve_path demo_platform ''/etc/none.yaml'')
     \<and> detectFormat demo_platform (resolve_path demo_platform ''/etc/none.yaml'')
         = Inl (UnsupportedFormat ''.yaml'')"
    by (simp add: demo_eval)
  then show ?thesis
    using loadConfig_existence_before_format [THEN conjunct1, rule_format,
        of demo_files demo_platform "''/etc/none.yaml''" "''.yaml''" new_store]
    by blast
qed

text \<open>
  Claim C6. The claim is that a document with a top-level \<^verbatim>\<open>records\<close> sequence is
  written as a table of its rows. The first test of the csv case accepts every top-level
  value that is a sequence, so the document \<^verbatim>\<open>{records: [...]}\<close> that \<^verbatim>\<open>loadConfig\<close>
  builds from a csv file of three columns takes the key/value branch: what is handed to
  the library is the single row \<^verbatim>\<open>{key: 'records', value: [...]}\<close>, not the rows.
\<close>

theorem csv_records_shadowed:
  "csv_to_config [[(''a'', ''1''), (''b'', ''2''), (''c'', ''3'')]]
     = JObj [(''records'', JArr [JObj [(''a'', JStr ''1''), (''b'', JStr ''2''), (''c'', JStr ''3'')]] [])]
   \<and> csv_records eng (JObj [(''records'',
         JArr [JObj [(''a'', JStr ''1''), (''b'', JStr ''2''), (''c'', JStr ''3'')]] [])])
     = Inr (JArr [JObj [(''key'', JStr ''records''),
                       (''value'', JArr [JObj [(''a'', JStr ''1''), (''b'', JStr ''2''),
                                               (''c'', JStr ''3'')]] [])]] [])"
  by (simp add: csv_to_config_def row_keys_def row_object_def row_cell_def csv_records_def
      object_entries_def entries_def typeof_object_def isArray_def key_value_row_def)

theorem csv_records_shadowed_witness:
  "csv_records demo_engine (csv_to_config [[(''a'', ''1''), (''b'', ''2''), (''c'', ''3'')]])
     \<noteq> Inr (JArr [JObj [(''a'', JStr ''1''), (''b'', JStr ''2''), (''c'', JStr ''3'')]] [])
   \<and> csv_records demo_engine (csv_to_config [[(''a'', ''1''), (''b'', ''2''), (''c'', ''3'')]])
     \<noteq> Inl UnsupportedStructure"
  using csv_records_shadowed [of demo_engine] by simp

section \<open>Properties of the watch protocol\<close>

subsection \<open>What the timers record\<close>

lemma reload_records_about: "n \<in> set (reload_records plat fs hk p cb) \<Longrightarrow> about n = p"
  by (auto simp: reload_records_def notify_def split: sum.splits option.splits)

lemma reload_journal:
  "journal (reload plat fs hk p cb rt) = journal rt @ reload_records plat fs hk p cb"
  by (simp add: reload_def loadConfig_eq reload_records_def split: sum.splits)

lemma reload_fields:
  "watchedFiles (reload plat fs hk p cb rt) = watchedFiles rt"
  "watchDebounces (reload plat fs hk p cb rt) = watchDebounces rt"
  "debounceTimeout (reload plat fs hk p cb rt) = debounceTimeout rt"
  "timers (reload plat fs hk p cb rt) = timers rt"
  "next_handle (reload plat fs hk p cb rt) = next_handle rt"
  "now (reload plat fs hk p cb rt) = now rt"
  by (simp_all add: reload_def loadConfig_eq split: sum.splits)

lemma fires_fields:
  "watchedFiles (foldl (fire plat fs hk) rt ts) = watchedFiles rt"
  "watchDebounces (foldl (fire plat fs hk) rt ts) = watchDebounces rt"
  "debounceTimeout (foldl (fire plat fs hk) rt ts) = debounceTimeout rt"
  "timers (foldl (fire plat fs hk) rt ts) = timers rt"
  "next_handle (foldl (fire plat fs hk) rt ts) = next_handle rt"
  "now (foldl (fire plat fs hk) rt ts) = now rt"
  by (induction ts arbitrary: rt; simp add: fire_def reload_fields)+

lemma fires_journal:
  "journal (foldl (fire plat fs hk) rt ts)
     = journal rt @ concat (map (\<lambda>t. reload_records plat fs hk (tpath t) (tcallback t)) ts)"
  by (induction ts arbitrary: rt) (simp_all add: fire_def reload_journal)

lemma filter_reload_records:
  "filter (\<lambda>n. about n = p) (concat (map (\<lambda>t. reload_records plat fs hk (tpath t) (tcallback t)) ts))
     = concat (map (\<lambda>t. reload_records plat fs hk p (tcallback t)) (filter (\<lambda>t. tpath t = p) ts))"
proof (induction ts)
  case Nil
  then show ?case by simp
next
  case (Cons t ts)
  have "filter (\<lambda>n. about n = p) (reload_records plat fs hk (tpath t) (tcallback t))
      = (if tpath t = p then reload_records plat fs hk p (tcallback t) else [])"
    using reload_records_about [of _ plat fs hk "tpath t" "tcallback t"]
    by (auto simp: filter_empty_conv filter_id_conv)
  with Cons show ?case by simp
qed

lemma run_due_fields:
  "watchedFiles (run_due plat fs hk rt) = watchedFiles rt"
  "watchDebounces (run_due plat fs hk rt) = watchDebounces rt"
  "debounceTimeout (run_due plat fs hk rt) = debounceTimeout rt"
  "timers (run_due plat fs hk rt) = filter (\<lambda>t. \<not> due t \<le> now rt) (timers rt)"
  "next_handle (run_due plat fs hk rt) = next_handle rt"
  "now (run_due plat fs hk rt) = now rt"
  by (simp_all add: run_due_def fires_fields)

lemma run_due_records:
  "records_of p (run_due plat fs hk rt)
     = records_of p rt @
       concat (map (\<lambda>t. reload_records plat fs hk p (tcallback t))
                 (filter (\<lambda>t. tpath t = p) (filter (\<lambda>t. due t \<le> now rt) (timers rt))))"
  by (simp add: records_of_def run_due_def fires_journal filter_reload_records)

text \<open>One raw notification on a watched path leaves exactly one timer for it.\<close>

lemma handler_arms:
  assumes "\<forall>t \<in> set (timers rt). tpath t = p \<longrightarrow> debounceTimeout rt p = Some (handle t)"
    and "watch_event e"
  shows "filter (\<lambda>t. tpath t = p) (timers (handler p cb e rt))
           = [\<lparr>handle = next_handle rt, due = now rt + DEBOUNCE_MS, tpath = p, tcallback = cb\<rparr>]"
    and "debounceTimeout (handler p cb e rt) p = Some (next_handle rt)"
    and "journal (handler p cb e rt) = journal rt"
    and "now (handler p cb e rt) = now rt"
    and "watchedFiles (handler p cb e rt) = watchedFiles rt"
    and "watchDebounces (handler p cb e rt) = watchDebounces rt"
proof -
  have c: "filter (\<lambda>t. tpath t = p) (timers (clearTimeout (debounceTimeout rt p) rt)) = []"
    using assms(1) by (auto simp: clearTimeout_def filter_empty_conv split: option.splits)
  have f: "next_handle (clearTimeout (debounceTimeout rt p) rt) = next_handle rt"
    "now (clearTimeout (debounceTimeout rt p) rt) = now rt"
    "journal (clearTimeout (debounceTimeout rt p) rt) = journal rt"
    "watchedFiles (clearTimeout (debounceTimeout rt p) rt) = watchedFiles rt"
    "watchDebounces (clearTimeout (debounceTimeout rt p) rt) = watchDebounces rt"
    by (simp_all add: clearTimeout_def split: option.splits)
  show "filter (\<lambda>t. tpath t = p) (timers (handler p cb e rt))
           = [\<lparr>handle = next_handle rt, due = now rt + DEBOUNCE_MS, tpath = p, tcallback = cb\<rparr>]"
    using assms(2) c f by (simp add: handler_def watch_event_def setTimeout_def Let_def)
  show "debounceTimeout (handler p cb e rt) p = Some (next_handle rt)"
    using assms(2) f by (simp add: handler_def watch_event_def setTimeout_def Let_def)
  show "journal (handler p cb e rt) = journal rt"
    using assms(2) f by (simp add: handler_def watch_event_def setTimeout_def Let_def)
  show "now (handler p cb e rt) = now rt"
    using assms(2) f by (simp add: handler_def watch_event_def setTimeout_def Let_def)
  show "watchedFiles (handler p cb e rt) = watchedFiles rt"
    using assms(2) f by (simp add: handler_def watch_event_def setTimeout_def Let_def)
  show "watchDebounces (handler p cb e rt) = watchDebounces rt"
    using assms(2) f by (simp add: handler_def watch_event_def setTimeout_def Let_def)
qed

lemma filter_swap: "filter P (filter Q xs) = filter Q (filter P xs)"
  by (simp add: conj_commute)

lemma step_fs_event:
  "watchedFiles rt p = Some cb \<Longrightarrow> step plat fsys hk rt (FsEvent p e) = handler p cb e rt"
  by (simp add: step_def)

lemma step_elapse:
  "step plat fsys hk rt (Elapse d) = run_due plat (fsys (now rt + d)) hk (rt\<lparr>now := now rt + d\<rparr>)"
  by (simp add: step_def)

lemma records_of_now: "records_of p (rt\<lparr>now := n\<rparr>) = records_of p rt"
  by (simp add: records_of_def)

lemma first_event:
  assumes "timers_ok rt" and "watchedFiles rt p = Some cb" and "watch_event e"
  shows "armed p cb (step plat fsys hk rt (FsEvent p e))"
    and "records_of p (step plat fsys hk rt (FsEvent p e)) = records_of p rt"
    and "now (step plat fsys hk rt (FsEvent p e)) = now rt"
proof -
  have h: "\<forall>t \<in> set (timers rt). tpath t = p \<longrightarrow> debounceTimeout rt p = Some (handle t)"
    using assms(1) by (auto simp: timers_ok_def)
  note a = handler_arms [OF h assms(3), of cb]
  show "armed p cb (step plat fsys hk rt (FsEvent p e))"
    using a assms(2) by (simp add: step_fs_event [OF assms(2)] armed_def)
  show "records_of p (step plat fsys hk rt (FsEvent p e)) = records_of p rt"
    using a by (simp add: step_fs_event [OF assms(2)] records_of_def)
  show "now (step plat fsys hk rt (FsEvent p e)) = now rt"
    using a by (simp add: step_fs_event [OF assms(2)])
qed

lemma gap_elapse:
  assumes "armed p cb rt" and "g < DEBOUNCE_MS"
  shows "filter (\<lambda>t. tpath t = p) (timers (step plat fsys hk rt (Elapse g)))
           = filter (\<lambda>t. tpath t = p) (timers rt)"
    and "records_of p (step plat fsys hk rt (Elapse g)) = records_of p rt"
    and "now (step plat fsys hk rt (Elapse g)) = now rt + g"
    and "watchedFiles (step plat fsys hk rt (Elapse g)) = watchedFiles rt"
    and "debounceTimeout (step plat fsys hk rt (Elapse g)) = debounceTimeout rt"
proof -
  let ?t = "\<lparr>handle = the (debounceTimeout rt p), due = now rt + DEBOUNCE_MS,
            tpath = p, tcallback = cb\<rparr>"
  have f: "filter (\<lambda>t. tpath t = p) (timers rt) = [?t]"
    using assms(1) by (simp add: armed_def)
  have "filter (\<lambda>t. tpath t = p) (filter (\<lambda>t. \<not> due t \<le> now rt + g) (timers rt))
      = filter (\<lambda>t. \<not> due t \<le> now rt + g) (filter (\<lambda>t. tpath t = p) (timers rt))"
    by (rule filter_swap)
  also have "\<dots> = [?t]" using f assms(2) by simp
  finally show "filter (\<lambda>t. tpath t = p) (timers (step plat fsys hk rt (Elapse g)))
           = filter (\<lambda>t. tpath t = p) (timers rt)"
    using f by (simp add: step_elapse run_due_fields)
  have "filter (\<lambda>t. tpath t = p) (filter (\<lambda>t. due t \<le> now rt + g) (timers rt))
      = filter (\<lambda>t. due t \<le> now rt + g) (filter (\<lambda>t. tpath t = p) (timers rt))"
    by (rule filter_swap)
  also have "\<dots> = []" using f assms(2) by simp
  finally show "records_of p (step plat fsys hk rt (Elapse g)) = records_of p rt"
    by (simp add: step_elapse run_due_records records_of_now)
  show "now (step plat fsys hk rt (Elapse g)) = now rt + g"
    by (simp add: step_elapse run_due_fields)
  show "watchedFiles (step plat fsys hk rt (Elapse g)) = watchedFiles rt"
    by (simp add: step_elapse run_due_fields)
  show "debounceTimeout (step plat fsys hk rt (Elapse g)) = debounceTimeout rt"
    by (simp add: step_elapse run_due_fields)
qed

lemma gap_event:
  assumes "armed p cb rt" and "g < DEBOUNCE_MS" and "watch_event e"
  shows "armed p cb (step plat fsys hk (step plat fsys hk rt (Elapse g)) (FsEvent p e))"
    and "records_of p (step plat fsys hk (step plat fsys hk rt (Elapse g)) (FsEvent p e))
           = records_of p rt"
    and "now (step plat fsys hk (step plat fsys hk rt (Elapse g)) (FsEvent p e)) = now rt + g"
proof -
  let ?r = "step plat fsys hk rt (Elapse g)"
  note g = gap_elapse [OF assms(1,2), of plat fsys hk]
  have w: "watchedFiles ?r p = Some cb" using g(4) assms(1) by (simp add: armed_def)
  have "\<forall>t \<in> set (filter (\<lambda>t. tpath t = p) (timers ?r)).
          debounceTimeout ?r p = Some (handle t)"
    using g(1,5) assms(1) by (auto simp: armed_def)
  then have h: "\<forall>t \<in> set (timers ?r). tpath t = p \<longrightarrow> debounceTimeout ?r p = Some (handle t)"
    by auto
  note a = handler_arms [OF h assms(3), of cb]
  show "armed p cb (step plat fsys hk ?r (FsEvent p e))"
    using a w by (simp add: step_fs_event [OF w] armed_def)
  show "records_of p (step plat fsys hk ?r (FsEvent p e)) = records_of p rt"
    using a g(2) by (simp add: step_fs_event [OF w] records_of_def)
  show "now (step plat fsys hk ?r (FsEvent p e)) = now rt + g"
    using a g(3) by (simp add: step_fs_event [OF w])
qed

lemma final_elapse:
  assumes "armed p cb rt" and "DEBOUNCE_MS \<le> d"
  shows "records_of p (step plat fsys hk rt (Elapse d))
           = records_of p rt @ reload_records plat (fsys (now rt + d)) hk p cb"
    and "now (step plat fsys hk rt (Elapse d)) = now rt + d"
    and "filter (\<lambda>t. tpath t = p) (timers (step plat fsys hk rt (Elapse d))) = []"
proof -
  let ?t = "\<lparr>handle = the (debounceTimeout rt p), due = now rt + DEBOUNCE_MS,
            tpath = p, tcallback = cb\<rparr>"
  have f: "filter (\<lambda>t. tpath t = p) (timers rt) = [?t]"
    using assms(1) by (simp add: armed_def)
  have "filter (\<lambda>t. tpath t = p) (filter (\<lambda>t. due t \<le> now rt + d) (timers rt))
      = filter (\<lambda>t. due t \<le> now rt + d) (filter (\<lambda>t. tpath t = p) (timers rt))"
    by (rule filter_swap)
  also have "\<dots> = [?t]" using f assms(2) by simp
  finally show "records_of p (step plat fsys hk rt (Elapse d))
           = records_of p rt @ reload_records plat (fsys (now rt + d)) hk p cb"
    by (simp add: step_elapse run_due_records records_of_now)
  show "now (step plat fsys hk rt (Elapse d)) = now rt + d"
    by (simp add: step_elapse run_due_fields)
  have "filter (\<lambda>t. tpath t = p) (filter (\<lambda>t. \<not> due t \<le> now rt + d) (timers rt))
      = filter (\<lambda>t. \<not> due t \<le> now rt + d) (filter (\<lambda>t. tpath t = p) (timers rt))"
    by (rule filter_swap)
  also have "\<dots> = []" using f assms(2) by simp
  finally show "filter (\<lambda>t. tpath t = p) (timers (step plat fsys hk rt (Elapse d))) = []"
    by (simp add: step_elapse run_due_fields)
qed

lemma run_append: "run plat fsys hk rt (xs @ ys) = run plat fsys hk (run plat fsys hk rt xs) ys"
  by (simp add: run_def)

lemma run_Cons: "run plat fsys hk rt (x # xs) = run plat fsys hk (step plat fsys hk rt x) xs"
  by (simp add: run_def)

lemma run_Nil: "run plat fsys hk rt [] = rt"
  by (simp add: run_def)

text \<open>Further notifications, each within the window of the one before, keep the state armed.\<close>

lemma burst_tail:
  assumes "armed p cb rt"
    and "list_all (\<lambda>ge. fst ge < DEBOUNCE_MS \<and> watch_event (snd ge)) further"
  shows "armed p cb (run plat fsys hk rt (concat (map (\<lambda>(g, e). [Elapse g, FsEvent p e]) further)))
       \<and> records_of p (run plat fsys hk rt (concat (map (\<lambda>(g, e). [Elapse g, FsEvent p e]) further)))
           = records_of p rt
       \<and> now (run plat fsys hk rt (concat (map (\<lambda>(g, e). [Elapse g, FsEvent p e]) further)))
           = now rt + sum_list (map fst further)"
  using assms
proof (induction further arbitrary: rt)
  case Nil
  then show ?case by (simp add: run_Nil)
next
  case (Cons ge further)
  obtain g e where ge: "ge = (g, e)" by (cases ge)
  let ?r = "step plat fsys hk (step plat fsys hk rt (Elapse g)) (FsEvent p e)"
  have g: "g < DEBOUNCE_MS" and e: "watch_event e" and rest:
    "list_all (\<lambda>ge. fst ge < DEBOUNCE_MS \<and> watch_event (snd ge)) further"
    using Cons.prems(2) ge by simp_all
  note s = gap_event [OF Cons.prems(1) g e, of plat fsys hk]
  note ih = Cons.IH [OF s(1) rest]
  have "run plat fsys hk rt (concat (map (\<lambda>(g, e). [Elapse g, FsEvent p e]) (ge # further)))
      = run plat fsys hk ?r (concat (map (\<lambda>(g, e). [Elapse g, FsEvent p e]) further))"
    using ge by (simp add: run_Cons)
  then show ?case using ih s(2,3) ge by simp
qed

subsection \<open>The invariant of the timers\<close>

lemma timers_ok_new: "timers_ok new_runtime"
  by (simp add: timers_ok_def new_runtime_def)

lemma timers_ok_watch:
  assumes "timers_ok rt" and "watchConfig plat fs q cb rt = Inr rt'"
  shows "timers_ok rt'"
proof (cases "watchedFiles rt (resolve_path plat q) \<noteq> None \<or> \<not> existsSync fs (resolve_path plat q)")
  case True
  then show ?thesis using assms by (auto simp: watchConfig_def Let_def split: if_splits)
next
  case False
  then have n: "watchedFiles rt (resolve_path plat q) = None" by simp
  have r: "rt' = rt\<lparr>watchedFiles := (watchedFiles rt)(resolve_path plat q := Some cb),
                    watchDebounces := (watchDebounces rt)(resolve_path plat q := True),
                    debounceTimeout := (debounceTimeout rt)(resolve_path plat q := None)\<rparr>"
    using assms(2) False by (simp add: watchConfig_def Let_def)
  have "\<forall>t \<in> set (timers rt). tpath t \<noteq> resolve_path plat q"
    using assms(1) n by (auto simp: timers_ok_def)
  then show ?thesis using assms(1) unfolding r by (auto simp: timers_ok_def)
qed

lemma timers_ok_unwatch:
  assumes "timers_ok rt"
  shows "timers_ok (unwatchConfig plat q rt)"
    and "quiet (resolve_path plat q) (unwatchConfig plat q rt)"
proof -
  let ?a = "resolve_path plat q"
  show "timers_ok (unwatchConfig plat q rt)"
  proof (cases "watchedFiles rt ?a")
    case None
    then have "\<forall>t \<in> set (timers rt). tpath t \<noteq> ?a"
      using assms by (auto simp: timers_ok_def)
    with None assms show ?thesis
      by (auto simp: unwatchConfig_def Let_def timers_ok_def clearTimeout_def split: option.splits)
  next
    case (Some w)
    then have d: "watchDebounces rt ?a" using assms by (auto simp: timers_ok_def)
    have h: "\<forall>t \<in> set (timers rt). tpath t = ?a \<longrightarrow> debounceTimeout rt ?a = Some (handle t)"
      using assms by (auto simp: timers_ok_def)
    show ?thesis
    proof (cases "debounceTimeout rt ?a")
      case None
      with h have "\<forall>t \<in> set (timers rt). tpath t \<noteq> ?a" by auto
      with Some d None assms show ?thesis
        by (auto simp: unwatchConfig_def Let_def timers_ok_def clearTimeout_def)
    next
      case (Some i)
      with h have "\<forall>t \<in> set (timers rt). handle t \<noteq> i \<longrightarrow> tpath t \<noteq> ?a" by auto
      with \<open>watchedFiles rt ?a = Some w\<close> d Some assms show ?thesis
        by (auto simp: unwatchConfig_def Let_def timers_ok_def clearTimeout_def)
    qed
  qed
  show "quiet ?a (unwatchConfig plat q rt)"
  proof (cases "watchedFiles rt ?a")
    case None
    then have "\<forall>t \<in> set (timers rt). tpath t \<noteq> ?a"
      using assms by (auto simp: timers_ok_def)
    with None show ?thesis
      by (auto simp: unwatchConfig_def Let_def quiet_def clearTimeout_def filter_empty_conv
          split: option.splits)
  next
    case (Some w)
    then have d: "watchDebounces rt ?a" using assms by (auto simp: timers_ok_def)
    have h: "\<forall>t \<in> set (timers rt). tpath t = ?a \<longrightarrow> debounceTimeout rt ?a = Some (handle t)"
      using assms by (auto simp: timers_ok_def)
    show ?thesis
    proof (cases "debounceTimeout rt ?a")
      case None
      with h have "\<forall>t \<in> set (timers rt). tpath t \<noteq> ?a" by auto
      with Some d None show ?thesis
        by (auto simp: unwatchConfig_def Let_def quiet_def clearTimeout_def filter_empty_conv)
    next
      case (Some i)
      with h have "\<forall>t \<in> set (timers rt). handle t \<noteq> i \<longrightarrow> tpath t \<noteq> ?a" by auto
      with \<open>watchedFiles rt ?a = Some w\<close> d Some show ?thesis
        by (auto simp: unwatchConfig_def Let_def quiet_def clearTimeout_def filter_empty_conv)
    qed
  qed
qed

lemma timers_ok_handler:
  assumes "timers_ok rt" and "watchedFiles rt p = Some cb"
  shows "timers_ok (handler p cb e rt)"
proof (cases "watch_event e")
  case False
  then show ?thesis using assms(1) by (simp add: handler_def watch_event_def)
next
  case True
  have h: "\<forall>t \<in> set (timers rt). tpath t = p \<longrightarrow> debounceTimeout rt p = Some (handle t)"
    using assms(1) by (auto simp: timers_ok_def)
  show ?thesis
  proof (cases "debounceTimeout rt p")
    case None
    with h have "\<forall>t \<in> set (timers rt). tpath t \<noteq> p" by auto
    with None True assms show ?thesis
      by (auto simp: handler_def watch_event_def setTimeout_def clearTimeout_def Let_def
          timers_ok_def)
  next
    case (Some i)
    with h have "\<forall>t \<in> set (timers rt). handle t \<noteq> i \<longrightarrow> tpath t \<noteq> p" by auto
    with Some True assms show ?thesis
      by (auto simp: handler_def watch_event_def setTimeout_def clearTimeout_def Let_def
          timers_ok_def)
  qed
qed

lemma timers_ok_run_due:
  assumes "timers_ok rt"
  shows "timers_ok (run_due plat fs hk (rt\<lparr>now := n\<rparr>))"
  using assms by (auto simp: timers_ok_def run_due_fields)

lemma timers_ok_step:
  assumes "timers_ok rt"
  shows "timers_ok (step plat fsys hk rt ev)"
proof (cases ev)
  case (WatchConfig q cb)
  then show ?thesis
    using assms timers_ok_watch [OF assms]
    by (cases "watchConfig plat (fsys (now rt)) q cb rt") (auto simp: step_def)
next
  case (UnwatchConfig q)
  then show ?thesis using timers_ok_unwatch(1) [OF assms] by (simp add: step_def)
next
  case (FsEvent p e)
  then show ?thesis
    using assms timers_ok_handler [OF assms]
    by (cases "watchedFiles rt p") (auto simp: step_def)
next
  case (Elapse d)
  then show ?thesis using timers_ok_run_due [OF assms] by (simp add: step_def)
qed

lemma timers_ok_run:
  "timers_ok rt \<Longrightarrow> timers_ok (run plat fsys hk rt evs)"
  by (induction evs arbitrary: rt) (simp_all add: run_Nil run_Cons timers_ok_step)

lemma timers_ok_reachable: "timers_ok (run plat fsys hk new_runtime evs)"
  by (rule timers_ok_run [OF timers_ok_new])

subsection \<open>After an unwatch\<close>

lemma quiet_step:
  assumes "quiet a rt" and "no_rewatch plat a [ev]"
  shows "quiet a (step plat fsys hk rt ev)"
    and "records_of a (step plat fsys hk rt ev) = records_of a rt"
proof -
  have w: "watchedFiles rt a = None" and t: "filter (\<lambda>t. tpath t = a) (timers rt) = []"
    using assms(1) by (simp_all add: quiet_def)
  have t': "\<forall>t \<in> set (timers rt). tpath t \<noteq> a"
    using t by (simp add: filter_empty_conv)
  show "quiet a (step plat fsys hk rt ev)"
  proof (cases ev)
    case (WatchConfig q cb)
    then have "resolve_path plat q \<noteq> a" using assms(2) by (simp add: no_rewatch_def)
    with WatchConfig w t show ?thesis
      by (auto simp: step_def watchConfig_def Let_def quiet_def split: sum.splits if_splits)
  next
    case (UnwatchConfig q)
    with w t' show ?thesis
      by (auto simp: step_def unwatchConfig_def Let_def quiet_def clearTimeout_def
          filter_empty_conv split: option.splits)
  next
    case (FsEvent p e)
    show ?thesis
    proof (cases "watchedFiles rt p")
      case None
      with FsEvent assms(1) show ?thesis by (simp add: step_def)
    next
      case (Some cb)
      then have "p \<noteq> a" using w by auto
      with FsEvent Some w t' show ?thesis
        by (auto simp: step_def handler_def setTimeout_def clearTimeout_def Let_def quiet_def
            filter_empty_conv split: option.splits)
    qed
  next
    case (Elapse d)
    with w t' show ?thesis
      by (auto simp: step_elapse run_due_fields quiet_def filter_empty_conv)
  qed
  show "records_of a (step plat fsys hk rt ev) = records_of a rt"
  proof (cases ev)
    case (WatchConfig q cb)
    then show ?thesis
      by (auto simp: step_def watchConfig_def Let_def records_of_def split: sum.splits if_splits)
  next
    case (UnwatchConfig q)
    then show ?thesis
      by (auto simp: step_def unwatchConfig_def Let_def records_of_def clearTimeout_def
          split: option.splits)
  next
    case (FsEvent p e)
    then show ?thesis
      by (auto simp: step_def handler_def setTimeout_def clearTimeout_def Let_def records_of_def
          split: option.splits)
  next
    case (Elapse d)
    have "filter (\<lambda>t. tpath t = a) (filter (\<lambda>t. due t \<le> now rt + d) (timers rt)) = []"
      using t' by (simp add: filter_empty_conv)
    with Elapse show ?thesis
      by (simp add: step_elapse run_due_records records_of_now)
  qed
qed

lemma quiet_run:
  assumes "quiet a rt" and "no_rewatch plat a evs"
  shows "quiet a (run plat fsys hk rt evs) \<and> records_of a (run plat fsys hk rt evs) = records_of a rt"
  using assms
proof (induction evs arbitrary: rt)
  case Nil
  then show ?case by (simp add: run_Nil)
next
  case (Cons ev evs)
  have 1: "no_rewatch plat a [ev]" and 2: "no_rewatch plat a evs"
    using Cons.prems(2) by (simp_all add: no_rewatch_def)
  note s = quiet_step [OF Cons.prems(1) 1, of fsys]
  show ?case using Cons.IH [OF s(1) 2] s(2) by (simp add: run_Cons)
qed

subsection \<open>Claims about the watch protocol\<close>

lemmas watch_eval =
  run_def step_def watchConfig_def unwatchConfig_def handler_def setTimeout_def
  clearTimeout_def run_due_def fire_def reload_def notify_def new_runtime_def new_store_def
  DEBOUNCE_MS_def records_of_def burst_def watch_event_def no_rewatch_def

lemma unwatch_journal: "journal (unwatchConfig plat p rt) = journal rt"
  by (simp add: unwatchConfig_def Let_def clearTimeout_def split: option.splits)

lemma unwatch_no_entry:
  "watchedFiles rt (resolve_path plat p) = None \<Longrightarrow> \<not> watchDebounces rt (resolve_path plat p)
     \<Longrightarrow> unwatchConfig plat p rt = rt"
  by (simp add: unwatchConfig_def Let_def)

lemma unwatch_removes_entry:
  "watchedFiles (unwatchConfig plat p rt) (resolve_path plat p) = None"
  "\<not> watchDebounces (unwatchConfig plat p rt) (resolve_path plat p)"
  by (auto simp: unwatchConfig_def Let_def clearTimeout_def split: option.splits)

text \<open>
  Claim C7 as stated fails when the reload fails: the timer function catches the error
  of \<^verbatim>\<open>loadConfig\<close> and emits \<^verbatim>\<open>configReloadError\<close>, and the callback is not called.
  Here the watched file is gone when the window has elapsed after a \<^verbatim>\<open>rename\<close>
  notification; there is one reload and no call of the callback.
\<close>

theorem debounce_reload_failure_counterexample:
  "journal (run demo_platform fs_then quiet_hooks new_runtime
      [WatchConfig ''/etc/app.json'' ''cb'', FsEvent ''/etc/app.json'' ''rename'', Elapse 150])
     = [Reload ''/etc/app.json'', ConfigReloadError ''/etc/app.json'' FileNotFound]"
  by (simp add: watch_eval demo_eval)

lemma notify_calls: "length (filter is_call (notify hk p cb doc)) = 1"
  by (simp add: notify_def split: option.splits)

lemma notify_reloads: "filter is_reload (notify hk p cb doc) = []"
  by (simp add: notify_def split: option.splits)

text \<open>
  Claim C7, amended. For a watched path, in any state that a run can reach: after one or
  more raw notifications, each less than 150 ms after the one before, and 150 ms or more
  without a further one, the journal has gained exactly the records of one reload of that
  path, made after the window has elapsed. These records hold one call of \<^verbatim>\<open>loadConfig\<close>
  and at most one call of the registered callback:
  \<^item> when the load succeeds and the callback and the listeners of \<^verbatim>\<open>configChanged\<close>
    return, they are the call of \<^verbatim>\<open>loadConfig\<close>, one call of the callback and one
    \<^verbatim>\<open>configChanged\<close>;
  \<^item> when the load succeeds and the callback throws, they are the call of
    \<^verbatim>\<open>loadConfig\<close>, the call of the callback and one \<^verbatim>\<open>configReloadError\<close> with what
    the callback has thrown, and there is no \<^verbatim>\<open>configChanged\<close>;
  \<^item> when the load succeeds, the callback returns and a listener of \<^verbatim>\<open>configChanged\<close>
    throws, they are the call of \<^verbatim>\<open>loadConfig\<close>, the call of the callback, the
    \<^verbatim>\<open>configChanged\<close> and one \<^verbatim>\<open>configReloadError\<close> with what the listener has thrown;
  \<^item> when the load fails, they are the call of \<^verbatim>\<open>loadConfig\<close> and one
    \<^verbatim>\<open>configReloadError\<close>, and the callback is not called.
\<close>

theorem debounce_burst:
  "(\<forall>plat fsys hk evs0 p cb e0 further d.
      watchedFiles (run plat fsys hk new_runtime evs0) p = Some cb \<and> watch_event e0
      \<and> list_all (\<lambda>ge. fst ge < DEBOUNCE_MS \<and> watch_event (snd ge)) further
      \<and> DEBOUNCE_MS \<le> d
    \<longrightarrow> records_of p (run plat fsys hk (run plat fsys hk new_runtime evs0)
                         (burst p e0 further @ [Elapse d]))
          = records_of p (run plat fsys hk new_runtime evs0)
            @ reload_records plat
                (fsys (now (run plat fsys hk new_runtime evs0) + sum_list (map fst further) + d))
                hk p cb)
   \<and> (\<forall>plat fs hk p cb.
        length (filter is_reload (reload_records plat fs hk p cb)) = 1
        \<and> length (filter is_call (reload_records plat fs hk p cb)) \<le> 1)
   \<and> (\<forall>plat fs hk p cb doc.
        decode_file plat fs (resolve_path plat p) = Inr doc
        \<and> callback_outcome hk cb doc = None \<and> listener_outcome hk doc = None
    \<longrightarrow> reload_records plat fs hk p cb = [Reload p, Called p cb doc, ConfigChanged p doc])
   \<and> (\<forall>plat fs hk p cb doc e.
        decode_file plat fs (resolve_path plat p) = Inr doc \<and> callback_outcome hk cb doc = Some e
    \<longrightarrow> reload_records plat fs hk p cb = [Reload p, Called p cb doc, ConfigReloadError p e])
   \<and> (\<forall>plat fs hk p cb doc e.
        decode_file plat fs (resolve_path plat p) = Inr doc
        \<and> callback_outcome hk cb doc = None \<and> listener_outcome hk doc = Some e
    \<longrightarrow> reload_records plat fs hk p cb
          = [Reload p, Called p cb doc, ConfigChanged p doc, ConfigReloadError p e])
   \<and> (\<forall>plat fs hk p cb e. decode_file plat fs (resolve_path plat p) = Inl e
    \<longrightarrow> reload_records plat fs hk p cb = [Reload p, ConfigReloadError p e])"
proof (intro conjI allI impI)
  fix plat :: platform and fsys :: "nat \<Rightarrow> filesys" and hk :: hooks and evs0 p cb e0
    and further :: "(nat \<times> string) list" and d :: nat
  let ?rt = "run plat fsys hk new_runtime evs0"
  let ?tail = "concat (map (\<lambda>(g, e). [Elapse g, FsEvent p e]) further)"
  assume h: "watchedFiles ?rt p = Some cb \<and> watch_event e0
      \<and> list_all (\<lambda>ge. fst ge < DEBOUNCE_MS \<and> watch_event (snd ge)) further
      \<and> DEBOUNCE_MS \<le> d"
  have ok: "timers_ok ?rt" by (rule timers_ok_reachable)
  let ?r1 = "step plat fsys hk ?rt (FsEvent p e0)"
  have w: "watchedFiles ?rt p = Some cb" and e0: "watch_event e0" using h by simp_all
  note f = first_event [OF ok w e0, of plat fsys hk]
  let ?r2 = "run plat fsys hk ?r1 ?tail"
  have t: "armed p cb ?r2 \<and> records_of p ?r2 = records_of p ?r1
      \<and> now ?r2 = now ?r1 + sum_list (map fst further)"
    using burst_tail [OF f(1)] h by blast
  have a2: "armed p cb ?r2" using t by simp
  have d: "DEBOUNCE_MS \<le> d" using h by simp
  note l = final_elapse [OF a2 d, of plat fsys hk]
  have "run plat fsys hk ?rt (burst p e0 further @ [Elapse d]) = step plat fsys hk ?r2 (Elapse d)"
    by (simp add: burst_def run_append run_Cons run_Nil)
  then show "records_of p (run plat fsys hk ?rt (burst p e0 further @ [Elapse d]))
          = records_of p ?rt
            @ reload_records plat (fsys (now ?rt + sum_list (map fst further) + d)) hk p cb"
    using l(1) t f(2,3) by simp
next
  fix plat :: platform and fs :: filesys and hk :: hooks and p cb
  show "length (filter is_reload (reload_records plat fs hk p cb)) = 1"
    by (simp add: reload_records_def notify_reloads split: sum.splits)
  show "length (filter is_call (reload_records plat fs hk p cb)) \<le> 1"
    by (simp add: reload_records_def notify_calls split: sum.splits)
next
  fix plat :: platform and fs :: filesys and hk :: hooks and p cb doc
  assume "decode_file plat fs (resolve_path plat p) = Inr doc
        \<and> callback_outcome hk cb doc = None \<and> listener_outcome hk doc = None"
  then show "reload_records plat fs hk p cb = [Reload p, Called p cb doc, ConfigChanged p doc]"
    by (simp add: reload_records_def notify_def)
next
  fix plat :: platform and fs :: filesys and hk :: hooks and p cb doc e
  assume "decode_file plat fs (resolve_path plat p) = Inr doc \<and> callback_outcome hk cb doc = Some e"
  then show "reload_records plat fs hk p cb = [Reload p, Called p cb doc, ConfigReloadError p e]"
    by (simp add: reload_records_def notify_def)
next
  fix plat :: platform and fs :: filesys and hk :: hooks and p cb doc e
  assume "decode_file plat fs (resolve_path plat p) = Inr doc
        \<and> callback_outcome hk cb doc = None \<and> listener_outcome hk doc = Some e"
  then show "reload_records plat fs hk p cb
          = [Reload p, Called p cb doc, ConfigChanged p doc, ConfigReloadError p e]"
    by (simp add: reload_records_def notify_def)
next
  fix plat :: platform and fs :: filesys and hk :: hooks and p cb e
  assume "decode_file plat fs (resolve_path plat p) = Inl e"
  then show "reload_records plat fs hk p cb = [Reload p, ConfigReloadError p e]"
    by (simp add: reload_records_def)
qed

theorem debounce_burst_witness:
  "watchedFiles (run demo_platform fs_always quiet_hooks new_runtime [WatchConfig ''/etc/app.json'' ''cb''])
       ''/etc/app.json'' = Some ''cb''
   \<and> watch_event ''change''
   \<and> list_all (\<lambda>ge. fst ge < DEBOUNCE_MS \<and> watch_event (snd ge)) [(100, ''rename''), (149, ''change'')]
   \<and> DEBOUNCE_MS \<le> 150
   \<and> records_of ''/etc/app.json''
        (run demo_platform fs_always quiet_hooks
           (run demo_platform fs_always quiet_hooks new_runtime [WatchConfig ''/etc/app.json'' ''cb''])
           (burst ''/etc/app.json'' ''change'' [(100, ''rename''), (149, ''change'')] @ [Elapse 150]))
       = [Reload ''/etc/app.json'', Called ''/etc/app.json'' ''cb'' (JObj []),
          ConfigChanged ''/etc/app.json'' (JObj [])]
   \<and> decode_file demo_platform demo_files (resolve_path demo_platform ''/etc/app.json'') = Inr (JObj [])
   \<and> callback_outcome failing_callback ''cb'' (JObj []) = Some (LibraryError ''callback'')
   \<and> reload_records demo_platform demo_files failing_callback ''/etc/app.json'' ''cb''
       = [Reload ''/etc/app.json'', Called ''/etc/app.json'' ''cb'' (JObj []),
          ConfigReloadError ''/etc/app.json'' (LibraryError ''callback'')]
   \<and> callback_outcome failing_listener ''cb'' (JObj []) = None
   \<and> listener_outcome failing_listener (JObj []) = Some (LibraryError ''listener'')
   \<and> reload_records demo_platform demo_files failing_listener ''/etc/app.json'' ''cb''
       = [Reload ''/etc/app.json'', Called ''/etc/app.json'' ''cb'' (JObj []),
          ConfigChanged ''/etc/app.json'' (JObj []),
          ConfigReloadError ''/etc/app.json'' (LibraryError ''listener'')]
   \<and> decode_file demo_platform no_files (resolve_path demo_platform ''/etc/app.json'')
       = Inl FileNotFound
   \<and> reload_records demo_platform no_files quiet_hooks ''/etc/app.json'' ''cb''
       = [Reload ''/etc/app.json'', ConfigReloadError ''/etc/app.json'' FileNotFound]"
proof -
  note t = debounce_burst
  let ?rt = "run demo_platform fs_always quiet_hooks new_runtime [WatchConfig ''/etc/app.json'' ''cb'']"
  have h: "watchedFiles ?rt ''/etc/app.json'' = Some ''cb'' \<and> watch_event ''change''
      \<and> list_all (\<lambda>ge. fst ge < DEBOUNCE_MS \<and> watch_event (snd ge))
            [(100, ''rename''), (149, ''change'')]
      \<and> DEBOUNCE_MS \<le> 150"
    by (simp add: watch_eval demo_eval)
  have r: "records_of ''/etc/app.json'' ?rt = []"
    by (simp add: watch_eval demo_eval)
  have d: "decode_file demo_platform (fs_always (now ?rt + sum_list (map fst [(100 :: nat, ''rename''), (149, ''change'')]) + 150))
             (resolve_path demo_platform ''/etc/app.json'') = Inr (JObj [])
           \<and> callback_outcome quiet_hooks ''cb'' (JObj []) = None
           \<and> listener_outcome quiet_hooks (JObj []) = None"
    by (simp add: demo_eval quiet_hooks_def)
  have "records_of ''/etc/app.json''
        (run demo_platform fs_always quiet_hooks ?rt
           (burst ''/etc/app.json'' ''change'' [(100, ''rename''), (149, ''change'')] @ [Elapse 150]))
      = records_of ''/etc/app.json'' ?rt
        @ reload_records demo_platform
            (fs_always (now ?rt + sum_list (map fst [(100 :: nat, ''rename''), (149, ''change'')]) + 150))
            quiet_hooks ''/etc/app.json'' ''cb''"
    using t [THEN conjunct1, rule_format, OF h] .
  also have "\<dots> = [Reload ''/etc/app.json'', Called ''/etc/app.json'' ''cb'' (JObj []),
          ConfigChanged ''/etc/app.json'' (JObj [])]"
    using r t [THEN conjunct2, THEN conjunct2, THEN conjunct1, rule_format, OF d] by simp
  finally have 1: "records_of ''/etc/app.json''
        (run demo_platform fs_always quiet_hooks ?rt
           (burst ''/etc/app.json'' ''change'' [(100, ''rename''), (149, ''change'')] @ [Elapse 150]))
      = [Reload ''/etc/app.json'', Called ''/etc/app.json'' ''cb'' (JObj []),
          ConfigChanged ''/etc/app.json'' (JObj [])]" .
  have df: "decode_file demo_platform demo_files (resolve_path demo_platform ''/etc/app.json'')
      = Inr (JObj [])"
    by (simp add: demo_eval)
  have c: "callback_outcome failing_callback ''cb'' (JObj []) = Some (LibraryError ''callback'')"
    by (simp add: failing_callback_def)
  have 2: "reload_records demo_platform demo_files failing_callback ''/etc/app.json'' ''cb''
       = [Reload ''/etc/app.json'', Called ''/etc/app.json'' ''cb'' (JObj []),
          ConfigReloadError ''/etc/app.json'' (LibraryError ''callback'')]"
    using t [THEN conjunct2, THEN conjunct2, THEN conjunct2, THEN conjunct1, rule_format,
        of demo_platform demo_files "''/etc/app.json''" "JObj []" failing_callback "''cb''"
           "LibraryError ''callback''"] df c
    by blast
  have l: "callback_outcome failing_listener ''cb'' (JObj []) = None
      \<and> listener_outcome failing_listener (JObj []) = Some (LibraryError ''listener'')"
    by (simp add: failing_listener_def)
  have 3: "reload_records demo_platform demo_files failing_listener ''/etc/app.json'' ''cb''
       = [Reload ''/etc/app.json'', Called ''/etc/app.json'' ''cb'' (JObj []),
          ConfigChanged ''/etc/app.json'' (JObj []),
          ConfigReloadError ''/etc/app.json'' (LibraryError ''listener'')]"
    using t [THEN conjunct2, THEN conjunct2, THEN conjunct2, THEN conjunct2, THEN conjunct1,
        rule_format,
        of demo_platform demo_files "''/etc/app.json''" "JObj []" failing_listener "''cb''"
           "LibraryError ''listener''"] df l
    by blast
  have nf: "decode_file demo_platform no_files (resolve_path demo_platform ''/etc/app.json'')
      = Inl FileNotFound"
    by (simp add: demo_eval)
  have 4: "reload_records demo_platform no_files quiet_hooks ''/etc/app.json'' ''cb''
       = [Reload ''/etc/app.json'', ConfigReloadError ''/etc/app.json'' FileNotFound]"
    using t [THEN conjunct2, THEN conjunct2, THEN conjunct2, THEN conjunct2, THEN conjunct2,
        rule_format, OF nf] .
  show ?thesis using h 1 df c 2 l 3 nf 4 by blast
qed

text \<open>
  Claim C8. \<^verbatim>\<open>unwatchConfig\<close> on a path that has no entry changes nothing, and a second
  \<^verbatim>\<open>unwatchConfig\<close> on the same path changes nothing either. In any state that a run can
  reach, \<^verbatim>\<open>unwatchConfig\<close> leaves no pending timer for the path, and whatever happens
  afterwards, as long as the path is not registered again, adds no record about the path
  to the journal: no reload, no call of the callback, no notification.
\<close>

theorem unwatch_cancels_pending_reload:
  "(\<forall>plat rt p. watchedFiles rt (resolve_path plat p) = None
        \<and> \<not> watchDebounces rt (resolve_path plat p)
    \<longrightarrow> unwatchConfig plat p rt = rt)
   \<and> (\<forall>plat rt p. unwatchConfig plat p (unwatchConfig plat p rt) = unwatchConfig plat p rt)
   \<and> (\<forall>plat fsys hk evs0 p evs. no_rewatch plat (resolve_path plat p) evs
    \<longrightarrow> filter (\<lambda>t. tpath t = resolve_path plat p)
            (timers (unwatchConfig plat p (run plat fsys hk new_runtime evs0))) = []
        \<and> records_of (resolve_path plat p)
            (run plat fsys hk (unwatchConfig plat p (run plat fsys hk new_runtime evs0)) evs)
          = records_of (resolve_path plat p) (run plat fsys hk new_runtime evs0))"
proof (intro conjI allI impI)
  fix plat :: platform and rt :: runtime and p
  assume "watchedFiles rt (resolve_path plat p) = None \<and> \<not> watchDebounces rt (resolve_path plat p)"
  then show "unwatchConfig plat p rt = rt"
    by (simp add: unwatch_no_entry)
next
  fix plat :: platform and rt :: runtime and p
  show "unwatchConfig plat p (unwatchConfig plat p rt) = unwatchConfig plat p rt"
    using unwatch_removes_entry [of plat p rt] by (rule unwatch_no_entry)
next
  fix plat :: platform and fsys :: "nat \<Rightarrow> filesys" and hk :: hooks and evs0 p evs
  assume n: "no_rewatch plat (resolve_path plat p) evs"
  let ?rt = "run plat fsys hk new_runtime evs0"
  have q: "quiet (resolve_path plat p) (unwatchConfig plat p ?rt)"
    using timers_ok_unwatch(2) [OF timers_ok_reachable] .
  then show "filter (\<lambda>t. tpath t = resolve_path plat p) (timers (unwatchConfig plat p ?rt)) = []"
    by (simp add: quiet_def)
  have "records_of (resolve_path plat p) (run plat fsys hk (unwatchConfig plat p ?rt) evs)
      = records_of (resolve_path plat p) (unwatchConfig plat p ?rt)"
    using quiet_run [OF q n] by simp
  then show "records_of (resolve_path plat p) (run plat fsys hk (unwatchConfig plat p ?rt) evs)
      = records_of (resolve_path plat p) ?rt"
    by (simp add: records_of_def unwatch_journal)
qed

theorem unwatch_cancels_pending_reload_witness:
  "timers (run demo_platform fs_always quiet_hooks new_runtime
       [WatchConfig ''/etc/app.json'' ''cb'', FsEvent ''/etc/app.json'' ''change''])
     = [\<lparr>handle = 0, due = 150, tpath = ''/etc/app.json'', tcallback = ''cb''\<rparr>]
   \<and> no_rewatch demo_platform (resolve_path demo_platform ''/etc/app.json'')
       [Elapse 150, FsEvent ''/etc/app.json'' ''change'', Elapse 150]
   \<and> records_of (resolve_path demo_platform ''/etc/app.json'')
       (run demo_platform fs_always quiet_hooks
          (unwatchConfig demo_platform ''/etc/app.json''
             (run demo_platform fs_always quiet_hooks new_runtime
                [WatchConfig ''/etc/app.json'' ''cb'', FsEvent ''/etc/app.json'' ''change'']))
          [Elapse 150, FsEvent ''/etc/app.json'' ''change'', Elapse 150])
     = []
   \<and> watchedFiles new_runtime (resolve_path demo_platform ''/etc/other.json'') = None
   \<and> \<not> watchDebounces new_runtime (resolve_path demo_platform ''/etc/other.json'')
   \<and> unwatchConfig demo_platform ''/etc/other.json'' new_runtime = new_runtime"
proof -
  let ?rt = "run demo_platform fs_always quiet_hooks new_runtime
       [WatchConfig ''/etc/app.json'' ''cb'', FsEvent ''/etc/app.json'' ''change'']"
  have t: "timers ?rt = [\<lparr>handle = 0, due = 150, tpath = ''/etc/app.json'', tcallback = ''cb''\<rparr>]"
    by (simp add: watch_eval demo_eval)
  have n: "no_rewatch demo_platform (resolve_path demo_platform ''/etc/app.json'')
       [Elapse 150, FsEvent ''/etc/app.json'' ''change'', Elapse 150]"
    by (simp add: no_rewatch_def)
  have r: "records_of (resolve_path demo_platform ''/etc/app.json'') ?rt = []"
    by (simp add: watch_eval demo_eval)
  have 1: "records_of (resolve_path demo_platform ''/etc/app.json'')
       (run demo_platform fs_always quiet_hooks (unwatchConfig demo_platform ''/etc/app.json'' ?rt)
          [Elapse 150, FsEvent ''/etc/app.json'' ''change'', Elapse 150]) = []"
    using unwatch_cancels_pending_reload [THEN conjunct2, THEN conjunct2, rule_format, OF n,
        of fs_always quiet_hooks
          "[WatchConfig ''/etc/app.json'' ''cb'', FsEvent ''/etc/app.json'' ''change'']"] r
    by simp
  have u: "watchedFiles new_runtime (resolve_path demo_platform ''/etc/other.json'') = None
      \<and> \<not> watchDebounces new_runtime (resolve_path demo_platform ''/etc/other.json'')"
    by (simp add: new_runtime_def)
  have 2: "unwatchConfig demo_platform ''/etc/other.json'' new_runtime = new_runtime"
    using unwatch_cancels_pending_reload [THEN conjunct1, rule_format, OF u] .
  show ?thesis using t n 1 u 2 by simp
qed

end
